theory Spec2Isabelle
  imports Complex_Main "HOL-Library.AList"
begin

section \<open>Values, errors and the profile data model\<close>

text \<open>
  The profile engine of \<^verbatim>\<open>proposed_solution/fraud_profile.py\<close> works on untyped
  dictionaries decoded from JSON. A Python value is a \<open>pyval\<close>; a dictionary is an
  association list read with \<open>map_of\<close> (the dictionaries built here have no duplicate key).
  Floats are modelled as reals (no rounding), Python's unbounded ints as \<open>int\<close>.
  An instant is a number of seconds after a fixed epoch. \<open>VIso t\<close> stands for a str in
  ISO-8601 format denoting the instant \<open>t\<close>, \<open>VDatetime t\<close> for a datetime object,
  \<open>VStr s\<close> for a str that is neither an ISO date nor a numeric literal.
\<close>

type_synonym instant = real

datatype pyval =
    VNone
  | VBool bool
  | VInt int
  | VFloat real
  | VStr string
  | VIso instant
  | VDatetime instant
  | VList "pyval list"
  | VDict "(string \<times> pyval) list"

datatype error =
    KeyError | ValueError | TypeError | AttributeError | ZeroDivisionError | IndexError
  | NotFittedError | JSONDecodeError

type_synonym event = "(string \<times> pyval) list"

definition bind_result :: "error + 'a \<Rightarrow> ('a \<Rightarrow> error + 'b) \<Rightarrow> error + 'b" where
  "bind_result r f = (case r of Inl e \<Rightarrow> Inl e | Inr x \<Rightarrow> f x)"

text \<open>\<^verbatim>\<open>d[k]\<close> on a dictionary with str keys, and on an arbitrary value.\<close>

definition getitem :: "(string \<times> 'a) list \<Rightarrow> string \<Rightarrow> error + 'a" where
  "getitem d k = (case map_of d k of None \<Rightarrow> Inl KeyError | Some v \<Rightarrow> Inr v)"

fun subscript :: "pyval \<Rightarrow> string \<Rightarrow> error + pyval" where
  "subscript (VDict d) k = getitem d k"
| "subscript v k = Inl TypeError"

text \<open>\<^verbatim>\<open>d.get(k, default)\<close>: only a dict has the method.\<close>

fun dict_get :: "pyval \<Rightarrow> string \<Rightarrow> pyval \<Rightarrow> error + pyval" where
  "dict_get (VDict d) k dflt = (case map_of d k of None \<Rightarrow> Inr dflt | Some v \<Rightarrow> Inr v)"
| "dict_get v k dflt = Inl AttributeError"

text \<open>\<^verbatim>\<open>datetime.fromisoformat(v)\<close> and \<^verbatim>\<open>float(v)\<close>.\<close>

fun fromisoformat :: "pyval \<Rightarrow> error + instant" where
  "fromisoformat (VIso t) = Inr t"
| "fromisoformat (VStr s) = Inl ValueError"
| "fromisoformat v = Inl TypeError"

fun py_float :: "pyval \<Rightarrow> error + real" where
  "py_float (VFloat x) = Inr x"
| "py_float (VInt n) = Inr (of_int n)"
| "py_float (VBool b) = Inr (if b then 1 else 0)"
| "py_float (VStr s) = Inl ValueError"
| "py_float (VIso t) = Inl ValueError"
| "py_float v = Inl TypeError"

text \<open>\<^verbatim>\<open>len(set([v]))\<close>: one, unless \<open>v\<close> is unhashable.\<close>

fun hashable :: "pyval \<Rightarrow> bool" where
  "hashable (VList xs) = False"
| "hashable (VDict d) = False"
| "hashable v = True"

definition len_set1 :: "pyval \<Rightarrow> error + int" where
  "len_set1 v = (if hashable v then Inr (int (card {v})) else Inl TypeError)"

text \<open>Truthiness, as \<^verbatim>\<open>if v:\<close> tests it.\<close>

fun truthy :: "pyval \<Rightarrow> bool" where
  "truthy VNone = False"
| "truthy (VBool b) = b"
| "truthy (VInt n) = (n \<noteq> 0)"
| "truthy (VFloat x) = (x \<noteq> 0)"
| "truthy (VStr s) = (s \<noteq> [])"
| "truthy (VIso t) = True"
| "truthy (VDatetime t) = True"
| "truthy (VList xs) = (xs \<noteq> [])"
| "truthy (VDict d) = (d \<noteq> [])"

text \<open>\<^verbatim>\<open>(current_time - v).total_seconds()\<close> for a datetime \<open>current_time\<close>.\<close>

fun seconds_since :: "instant \<Rightarrow> pyval \<Rightarrow> error + real" where
  "seconds_since current_time (VDatetime t) = Inr (current_time - t)"
| "seconds_since current_time v = Inl TypeError"

record LoginMetrics =
  total_logins :: int
  unique_devices :: int
  unique_ips :: int
  unique_locations :: int
  avg_login_interval :: real
  last_login_time :: pyval
  login_velocity_24h :: int
  login_velocity_7d :: int
  suspicious_login_count :: int

record TransactionMetrics =
  total_transactions :: int
  total_amount :: real
  avg_amount :: real
  max_amount :: real
  unique_merchants :: int
  transaction_velocity_24h :: int
  transaction_velocity_7d :: int
  suspicious_transaction_count :: int

record SessionMetrics =
  total_sessions :: int
  avg_session_duration :: real
  max_session_duration :: real
  session_velocity_24h :: int
  session_velocity_7d :: int

record FeatureUsageMetrics =
  unique_features_used :: int
  feature_usage_count :: int
  total_frequency :: real
  avg_feature_frequency :: real
  std_feature_frequency :: real
  feature_usage_velocity_24h :: int
  feature_usage_velocity_7d :: int

record RiskScores =
  login_risk :: real
  transaction_risk :: real
  session_risk :: real
  feature_usage_risk :: real
  overall_risk :: real

record FraudProfile =
  user_id :: string
  login_metrics :: LoginMetrics
  transaction_metrics :: TransactionMetrics
  session_metrics :: SessionMetrics
  feature_usage_metrics :: FeatureUsageMetrics
  risk_scores :: RiskScores
  last_updated :: instant
  historical_changes :: "pyval list"

text \<open>
  The constructor \<^verbatim>\<open>FraudProfile(user_id)\<close> when no file is stored for the user: the
  dataclass defaults, an empty history, and the clock's reading.
\<close>

definition new_profile :: "string \<Rightarrow> instant \<Rightarrow> FraudProfile" where
  "new_profile uid now =
     \<lparr> user_id = uid,
       login_metrics = \<lparr> total_logins = 0, unique_devices = 0, unique_ips = 0,
         unique_locations = 0, avg_login_interval = 0, last_login_time = VNone,
         login_velocity_24h = 0, login_velocity_7d = 0, suspicious_login_count = 0 \<rparr>,
       transaction_metrics = \<lparr> total_transactions = 0, total_amount = 0, avg_amount = 0,
         max_amount = 0, unique_merchants = 0, transaction_velocity_24h = 0,
         transaction_velocity_7d = 0, suspicious_transaction_count = 0 \<rparr>,
       session_metrics = \<lparr> total_sessions = 0, avg_session_duration = 0,
         max_session_duration = 0, session_velocity_24h = 0, session_velocity_7d = 0 \<rparr>,
       feature_usage_metrics = \<lparr> unique_features_used = 0, feature_usage_count = 0,
         total_frequency = 0, avg_feature_frequency = 0, std_feature_frequency = 0,
         feature_usage_velocity_24h = 0, feature_usage_velocity_7d = 0 \<rparr>,
       risk_scores = \<lparr> login_risk = 0, transaction_risk = 0, session_risk = 0,
         feature_usage_risk = 0, overall_risk = 0 \<rparr>,
       last_updated = now,
       historical_changes = [] \<rparr>"

section \<open>The profile store\<close>

text \<open>
  One file \<^verbatim>\<open>profiles/<user_id>.json\<close> per user. \<^verbatim>\<open>_save_profile\<close> opens the file
  for writing, which truncates it, and \<^verbatim>\<open>json.dump\<close> writes the document piece by
  piece: when a value cannot be encoded it raises TypeError and leaves a file that is
  not a JSON document (\<open>PartialFile\<close>). A datetime object is the one value of the model
  that the encoder refuses. Failures of the file system itself are not modelled.
\<close>

datatype stored_file = JsonFile pyval | PartialFile

type_synonym store = "string \<Rightarrow> stored_file option"

type_synonym outcome = "error option \<times> FraudProfile \<times> store"

fun json_serializable :: "pyval \<Rightarrow> bool" where
  "json_serializable (VDatetime t) = False"
| "json_serializable (VList xs) = (\<forall>x \<in> set xs. json_serializable x)"
| "json_serializable (VDict d) = (\<forall>x \<in> set (map snd d). json_serializable x)"
| "json_serializable v = True"

text \<open>The \<^verbatim>\<open>__dict__\<close> of each metric group, in field order.\<close>

definition login_metrics_dict :: "LoginMetrics \<Rightarrow> pyval" where
  "login_metrics_dict m = VDict
     [(''total_logins'', VInt (total_logins m)),
      (''unique_devices'', VInt (unique_devices m)),
      (''unique_ips'', VInt (unique_ips m)),
      (''unique_locations'', VInt (unique_locations m)),
      (''avg_login_interval'', VFloat (avg_login_interval m)),
      (''last_login_time'', last_login_time m),
      (''login_velocity_24h'', VInt (login_velocity_24h m)),
      (''login_velocity_7d'', VInt (login_velocity_7d m)),
      (''suspicious_login_count'', VInt (suspicious_login_count m))]"

definition transaction_metrics_dict :: "TransactionMetrics \<Rightarrow> pyval" where
  "transaction_metrics_dict m = VDict
     [(''total_transactions'', VInt (total_transactions m)),
      (''total_amount'', VFloat (total_amount m)),
      (''avg_amount'', VFloat (avg_amount m)),
      (''max_amount'', VFloat (max_amount m)),
      (''unique_merchants'', VInt (unique_merchants m)),
      (''transaction_velocity_24h'', VInt (transaction_velocity_24h m)),
      (''transaction_velocity_7d'', VInt (transaction_velocity_7d m)),
      (''suspicious_transaction_count'', VInt (suspicious_transaction_count m))]"

definition session_metrics_dict :: "SessionMetrics \<Rightarrow> pyval" where
  "session_metrics_dict m = VDict
     [(''total_sessions'', VInt (total_sessions m)),
      (''avg_session_duration'', VFloat (avg_session_duration m)),
      (''max_session_duration'', VFloat (max_session_duration m)),
      (''session_velocity_24h'', VInt (session_velocity_24h m)),
      (''session_velocity_7d'', VInt (session_velocity_7d m))]"

definition feature_usage_metrics_dict :: "FeatureUsageMetrics \<Rightarrow> pyval" where
  "feature_usage_metrics_dict m = VDict
     [(''unique_features_used'', VInt (unique_features_used m)),
      (''feature_usage_count'', VInt (feature_usage_count m)),
      (''total_frequency'', VFloat (total_frequency m)),
      (''avg_feature_frequency'', VFloat (avg_feature_frequency m)),
      (''std_feature_frequency'', VFloat (std_feature_frequency m)),
      (''feature_usage_velocity_24h'', VInt (feature_usage_velocity_24h m)),
      (''feature_usage_velocity_7d'', VInt (feature_usage_velocity_7d m))]"

definition risk_scores_dict :: "RiskScores \<Rightarrow> pyval" where
  "risk_scores_dict r = VDict
     [(''login_risk'', VFloat (login_risk r)),
      (''transaction_risk'', VFloat (transaction_risk r)),
      (''session_risk'', VFloat (session_risk r)),
      (''feature_usage_risk'', VFloat (feature_usage_risk r)),
      (''overall_risk'', VFloat (overall_risk r))]"

definition profile_data :: "FraudProfile \<Rightarrow> pyval" where
  "profile_data p = VDict
     [(''login_metrics'', login_metrics_dict (login_metrics p)),
      (''transaction_metrics'', transaction_metrics_dict (transaction_metrics p)),
      (''session_metrics'', session_metrics_dict (session_metrics p)),
      (''feature_usage_metrics'', feature_usage_metrics_dict (feature_usage_metrics p)),
      (''risk_scores'', risk_scores_dict (risk_scores p)),
      (''last_updated'', VIso (last_updated p)),
      (''historical_changes'', VList (historical_changes p))]"

definition save_profile :: "FraudProfile \<Rightarrow> store \<Rightarrow> outcome" where
  "save_profile p st =
     (if json_serializable (profile_data p)
      then (None, p, st(user_id p \<mapsto> JsonFile (profile_data p)))
      else (Some TypeError, p, st(user_id p \<mapsto> PartialFile)))"

section \<open>Velocity, history and risk scores\<close>

text \<open>
  The list comprehension of \<^verbatim>\<open>_update_velocity_metrics\<close>, which the source writes out
  for each metric type and window: the entries of type \<open>ty\<close> whose field \<open>key\<close>, parsed
  as an ISO date, is at most \<open>window\<close> seconds before \<open>current_time\<close>. The field is
  read only for an entry of the type (\<^verbatim>\<open>and\<close> short-circuits); a failing lookup or
  parse raises.
\<close>

fun velocity :: "pyval list \<Rightarrow> string \<Rightarrow> string \<Rightarrow> instant \<Rightarrow> real \<Rightarrow> error + nat" where
  "velocity [] ty key current_time window = Inr 0"
| "velocity (change # rest) ty key current_time window =
     (case subscript change ''event_type'' of
        Inl e \<Rightarrow> Inl e
      | Inr et \<Rightarrow>
          if et = VStr ty then
            (case bind_result (subscript change key) fromisoformat of
               Inl e \<Rightarrow> Inl e
             | Inr t \<Rightarrow>
                 (case velocity rest ty key current_time window of
                    Inl e \<Rightarrow> Inl e
                  | Inr n \<Rightarrow> Inr (if current_time - t \<le> window then Suc n else n)))
          else velocity rest ty key current_time window)"

definition update_velocity_metrics ::
    "string \<Rightarrow> instant \<Rightarrow> FraudProfile \<Rightarrow> error option \<times> FraudProfile" where
  "update_velocity_metrics metric_type current_time p =
     (if metric_type = ''login'' then
        (case velocity (historical_changes p) ''login'' ''timestamp'' current_time 86400 of
           Inl e \<Rightarrow> (Some e, p)
         | Inr n24 \<Rightarrow>
             let p = login_metrics_update (login_velocity_24h_update (\<lambda>_. int n24)) p in
             (case velocity (historical_changes p) ''login'' ''timestamp'' current_time 604800 of
                Inl e \<Rightarrow> (Some e, p)
              | Inr n7 \<Rightarrow>
                  (None, login_metrics_update (login_velocity_7d_update (\<lambda>_. int n7)) p)))
      else if metric_type = ''transaction'' then
        (case velocity (historical_changes p) ''transaction'' ''timestamp'' current_time 86400 of
           Inl e \<Rightarrow> (Some e, p)
         | Inr n24 \<Rightarrow>
             let p = transaction_metrics_update
                       (transaction_velocity_24h_update (\<lambda>_. int n24)) p in
             (case velocity (historical_changes p) ''transaction'' ''timestamp''
                     current_time 604800 of
                Inl e \<Rightarrow> (Some e, p)
              | Inr n7 \<Rightarrow>
                  (None, transaction_metrics_update
                           (transaction_velocity_7d_update (\<lambda>_. int n7)) p)))
      else if metric_type = ''session'' then
        (case velocity (historical_changes p) ''session'' ''start_time'' current_time 86400 of
           Inl e \<Rightarrow> (Some e, p)
         | Inr n24 \<Rightarrow>
             let p = session_metrics_update (session_velocity_24h_update (\<lambda>_. int n24)) p in
             (case velocity (historical_changes p) ''session'' ''start_time''
                     current_time 604800 of
                Inl e \<Rightarrow> (Some e, p)
              | Inr n7 \<Rightarrow>
                  (None, session_metrics_update (session_velocity_7d_update (\<lambda>_. int n7)) p)))
      else if metric_type = ''feature_usage'' then
        (case velocity (historical_changes p) ''feature_usage'' ''timestamp''
                current_time 86400 of
           Inl e \<Rightarrow> (Some e, p)
         | Inr n24 \<Rightarrow>
             let p = feature_usage_metrics_update
                       (feature_usage_velocity_24h_update (\<lambda>_. int n24)) p in
             (case velocity (historical_changes p) ''feature_usage'' ''timestamp''
                     current_time 604800 of
                Inl e \<Rightarrow> (Some e, p)
              | Inr n7 \<Rightarrow>
                  (None, feature_usage_metrics_update
                           (feature_usage_velocity_7d_update (\<lambda>_. int n7)) p)))
      else (None, p))"

text \<open>
  \<^verbatim>\<open>_record_change\<close> reads the clock twice: once for the entry's timestamp, once for
  \<^verbatim>\<open>last_updated\<close>. Both readings are inputs of the model.
\<close>

type_synonym clock = "instant \<times> instant"

definition change_entry :: "instant \<Rightarrow> string \<Rightarrow> event \<Rightarrow> pyval" where
  "change_entry now event_type event_data = VDict
     [(''timestamp'', VIso now),
      (''event_type'', VStr event_type),
      (''event_data'', VDict event_data)]"

definition record_change :: "string \<Rightarrow> event \<Rightarrow> clock \<Rightarrow> FraudProfile \<Rightarrow> FraudProfile" where
  "record_change event_type event_data clk p =
     p\<lparr> historical_changes :=
          historical_changes p @ [change_entry (fst clk) event_type event_data],
        last_updated := snd clk \<rparr>"

definition update_risk_scores :: "FraudProfile \<Rightarrow> FraudProfile" where
  "update_risk_scores p =
     (let lm = login_metrics p; tm = transaction_metrics p;
          sm = session_metrics p; fm = feature_usage_metrics p;
          lr = min 1 ((of_int (login_velocity_24h lm) / 10) * 0.3
                      + (of_int (unique_locations lm) / 5) * 0.3
                      + (of_int (unique_devices lm) / 3) * 0.4);
          tr = min 1 ((of_int (transaction_velocity_24h tm) / 20) * 0.3
                      + (avg_amount tm / 1000) * 0.4
                      + (of_int (unique_merchants tm) / 10) * 0.3);
          sr = min 1 ((of_int (session_velocity_24h sm) / 15) * 0.4
                      + (avg_session_duration sm / 3600) * 0.6);
          fr = min 1 ((of_int (feature_usage_velocity_24h fm) / 50) * 0.3
                      + (std_feature_frequency fm) * 0.4
                      + (avg_feature_frequency fm / 10) * 0.3)
      in p\<lparr> risk_scores :=
             \<lparr> login_risk = lr, transaction_risk = tr, session_risk = sr,
               feature_usage_risk = fr,
               overall_risk = lr * 0.3 + tr * 0.3 + sr * 0.2 + fr * 0.2 \<rparr> \<rparr>)"

section \<open>The four update methods\<close>

text \<open>
  Each method mutates the profile statement by statement, so an exception leaves the
  profile as mutated up to the raising statement. \<open>try_step r p st k\<close> evaluates \<open>r\<close>:
  an exception ends the method with the profile \<open>p\<close> and the store \<open>st\<close> as they are,
  a value is passed on to the rest \<open>k\<close> of the method.
\<close>

definition try_step :: "error + 'a \<Rightarrow> FraudProfile \<Rightarrow> store \<Rightarrow> ('a \<Rightarrow> outcome) \<Rightarrow> outcome" where
  "try_step r p st k = (case r of Inl e \<Rightarrow> (Some e, p, st) | Inr x \<Rightarrow> k x)"

text \<open>\<^verbatim>\<open>x / n\<close> for a float \<open>x\<close> and an int \<open>n\<close>.\<close>

definition truediv :: "real \<Rightarrow> int \<Rightarrow> error + real" where
  "truediv x n = (if n = 0 then Inl ZeroDivisionError else Inr (x / of_int n))"

definition update_with_login :: "FraudProfile \<Rightarrow> event \<Rightarrow> clock \<Rightarrow> store \<Rightarrow> outcome" where
  "update_with_login p login_event clk st =
     try_step (bind_result (getitem login_event ''timestamp'') fromisoformat) p st
       (\<lambda>current_time.
     let p = login_metrics_update (total_logins_update (\<lambda>n. n + 1)) p in
     try_step (bind_result (getitem login_event ''device_type'') len_set1) p st (\<lambda>n.
     let p = login_metrics_update (unique_devices_update (\<lambda>_. n)) p in
     try_step (bind_result (getitem login_event ''ip_address'') len_set1) p st (\<lambda>n.
     let p = login_metrics_update (unique_ips_update (\<lambda>_. n)) p in
     try_step (bind_result (getitem login_event ''geolocation'') len_set1) p st (\<lambda>n.
     let p = login_metrics_update (unique_locations_update (\<lambda>_. n)) p in
     try_step
       (if truthy (last_login_time (login_metrics p)) then
          bind_result (seconds_since current_time (last_login_time (login_metrics p)))
            (\<lambda>interval.
          bind_result
            (truediv (avg_login_interval (login_metrics p)
                        * of_int (total_logins (login_metrics p) - 1) + interval)
                     (total_logins (login_metrics p)))
            (\<lambda>a. Inr (login_metrics_update (avg_login_interval_update (\<lambda>_. a)) p)))
        else Inr p) p st (\<lambda>p.
     let p = login_metrics_update (last_login_time_update (\<lambda>_. VDatetime current_time)) p in
     (case update_velocity_metrics ''login'' current_time p of
        (Some e, p) \<Rightarrow> (Some e, p, st)
      | (None, p) \<Rightarrow>
          save_profile (update_risk_scores (record_change ''login'' login_event clk p)) st))))))"

definition update_with_transaction ::
    "FraudProfile \<Rightarrow> event \<Rightarrow> clock \<Rightarrow> store \<Rightarrow> outcome" where
  "update_with_transaction p transaction_event clk st =
     try_step (bind_result (getitem transaction_event ''timestamp'') fromisoformat) p st
       (\<lambda>current_time.
     try_step (bind_result (getitem transaction_event ''amount'') py_float) p st (\<lambda>amount.
     let p = transaction_metrics_update (total_transactions_update (\<lambda>n. n + 1)) p in
     let p = transaction_metrics_update (total_amount_update (\<lambda>x. x + amount)) p in
     try_step (truediv (total_amount (transaction_metrics p))
                       (total_transactions (transaction_metrics p))) p st (\<lambda>a.
     let p = transaction_metrics_update (avg_amount_update (\<lambda>_. a)) p in
     let p = transaction_metrics_update (max_amount_update (\<lambda>m. max m amount)) p in
     try_step (bind_result (getitem transaction_event ''merchant_id'') len_set1) p st (\<lambda>n.
     let p = transaction_metrics_update (unique_merchants_update (\<lambda>_. n)) p in
     (case update_velocity_metrics ''transaction'' current_time p of
        (Some e, p) \<Rightarrow> (Some e, p, st)
      | (None, p) \<Rightarrow>
          save_profile
            (update_risk_scores (record_change ''transaction'' transaction_event clk p)) st)))))"

definition update_with_session :: "FraudProfile \<Rightarrow> event \<Rightarrow> clock \<Rightarrow> store \<Rightarrow> outcome" where
  "update_with_session p session_event clk st =
     try_step (bind_result (getitem session_event ''start_time'') fromisoformat) p st
       (\<lambda>current_time.
     try_step (bind_result (getitem session_event ''session_duration'') py_float) p st
       (\<lambda>duration.
     let p = session_metrics_update (total_sessions_update (\<lambda>n. n + 1)) p in
     try_step (truediv (avg_session_duration (session_metrics p)
                          * of_int (total_sessions (session_metrics p) - 1) + duration)
                       (total_sessions (session_metrics p))) p st (\<lambda>a.
     let p = session_metrics_update (avg_session_duration_update (\<lambda>_. a)) p in
     let p = session_metrics_update (max_session_duration_update (\<lambda>m. max m duration)) p in
     (case update_velocity_metrics ''session'' current_time p of
        (Some e, p) \<Rightarrow> (Some e, p, st)
      | (None, p) \<Rightarrow>
          save_profile
            (update_risk_scores (record_change ''session'' session_event clk p)) st))))"

text \<open>
  The frequencies of the feature-usage entries of the history, as the comprehension of
  \<^verbatim>\<open>update_with_feature_usage\<close> collects them (the stored raw values, default 1.0), and
  numpy's population standard deviation of a list of numbers.
\<close>

fun freq_values :: "pyval list \<Rightarrow> error + pyval list" where
  "freq_values [] = Inr []"
| "freq_values (change # rest) =
     (case subscript change ''event_type'' of
        Inl e \<Rightarrow> Inl e
      | Inr et \<Rightarrow>
          if et = VStr ''feature_usage'' then
            (case bind_result (subscript change ''event_data'')
                    (\<lambda>d. dict_get d ''frequency'' (VFloat 1)) of
               Inl e \<Rightarrow> Inl e
             | Inr v \<Rightarrow>
                 (case freq_values rest of Inl e \<Rightarrow> Inl e | Inr vs \<Rightarrow> Inr (v # vs)))
          else freq_values rest)"

fun np_number :: "pyval \<Rightarrow> error + real" where
  "np_number (VFloat x) = Inr x"
| "np_number (VInt n) = Inr (of_int n)"
| "np_number (VBool b) = Inr (if b then 1 else 0)"
| "np_number (VList xs) = Inl ValueError"
| "np_number v = Inl TypeError"

fun np_array :: "pyval list \<Rightarrow> error + real list" where
  "np_array [] = Inr []"
| "np_array (v # vs) =
     (case np_number v of
        Inl e \<Rightarrow> Inl e
      | Inr x \<Rightarrow> (case np_array vs of Inl e \<Rightarrow> Inl e | Inr xs \<Rightarrow> Inr (x # xs)))"

definition np_std :: "real list \<Rightarrow> real" where
  "np_std xs =
     (let n = real (length xs); m = sum_list xs / n
      in sqrt (sum_list (map (\<lambda>x. (x - m)\<^sup>2) xs) / n))"

definition update_with_feature_usage ::
    "FraudProfile \<Rightarrow> event \<Rightarrow> clock \<Rightarrow> store \<Rightarrow> outcome" where
  "update_with_feature_usage p feature_event clk st =
     try_step (bind_result (getitem feature_event ''timestamp'') fromisoformat) p st
       (\<lambda>current_time.
     try_step (bind_result (dict_get (VDict feature_event) ''frequency'' (VFloat 1)) py_float)
       p st (\<lambda>frequency.
     let p = feature_usage_metrics_update (feature_usage_count_update (\<lambda>n. n + 1)) p in
     let p = feature_usage_metrics_update (total_frequency_update (\<lambda>x. x + frequency)) p in
     try_step (truediv (total_frequency (feature_usage_metrics p))
                       (feature_usage_count (feature_usage_metrics p))) p st (\<lambda>a.
     let p = feature_usage_metrics_update (avg_feature_frequency_update (\<lambda>_. a)) p in
     try_step (freq_values (historical_changes p)) p st (\<lambda>vs.
     let freqs = vs @ [VFloat frequency] in
     try_step (if length freqs > 1 then bind_result (np_array freqs) (\<lambda>xs. Inr (np_std xs))
               else Inr 0) p st (\<lambda>sd.
     let p = feature_usage_metrics_update (std_feature_frequency_update (\<lambda>_. sd)) p in
     (case update_velocity_metrics ''feature_usage'' current_time p of
        (Some e, p) \<Rightarrow> (Some e, p, st)
      | (None, p) \<Rightarrow>
          save_profile
            (update_risk_scores (record_change ''feature_usage'' feature_event clk p))
            st))))))"

section \<open>The anomaly detector\<close>

text \<open>
  \<^verbatim>\<open>proposed_solution/anomaly_detector.py\<close> keeps one scikit-learn scaler and one
  estimator per event type. The library objects are abstract here: a fitted
  StandardScaler is its \<^verbatim>\<open>transform\<close> on one sample, a fitted IsolationForest its
  \<^verbatim>\<open>score_samples\<close> on one sample, and fitting is a parameter (\<open>sklearn\<close>) that may
  raise. What the model takes from the library: \<^verbatim>\<open>transform\<close> and \<^verbatim>\<open>score_samples\<close>
  raise NotFittedError on an object that was never fitted, and a LocalOutlierFactor built
  without \<^verbatim>\<open>novelty=True\<close>, as the constructor here builds it, offers no
  \<^verbatim>\<open>score_samples\<close> (AttributeError).
\<close>

type_synonym scaler = "(real list \<Rightarrow> error + real list) option"

datatype estimator =
    IsolationForest "(real list \<Rightarrow> error + real) option"
  | LocalOutlierFactor bool

record sklearn =
  scaler_fit :: "real list list \<Rightarrow> error + (real list \<Rightarrow> error + real list)"
  forest_fit :: "real list list \<Rightarrow> error + (real list \<Rightarrow> error + real)"
  lof_fit :: "real list list \<Rightarrow> error + unit"

record AnomalyDetector =
  models :: "(string \<times> estimator) list"
  scalers :: "(string \<times> scaler) list"

definition transform :: "scaler \<Rightarrow> real list \<Rightarrow> error + real list" where
  "transform s x = (case s of None \<Rightarrow> Inl NotFittedError | Some f \<Rightarrow> f x)"

fun score_samples :: "estimator \<Rightarrow> real list \<Rightarrow> error + real" where
  "score_samples (IsolationForest None) x = Inl NotFittedError"
| "score_samples (IsolationForest (Some f)) x = f x"
| "score_samples (LocalOutlierFactor fitted) x = Inl AttributeError"

fun estimator_fit :: "sklearn \<Rightarrow> estimator \<Rightarrow> real list list \<Rightarrow> error + estimator" where
  "estimator_fit sk (IsolationForest s) X =
     bind_result (forest_fit sk X) (\<lambda>f. Inr (IsolationForest (Some f)))"
| "estimator_fit sk (LocalOutlierFactor b) X =
     bind_result (lof_fit sk X) (\<lambda>u. Inr (LocalOutlierFactor True))"

text \<open>The detector as \<^verbatim>\<open>__init__\<close> builds it, before \<^verbatim>\<open>_initialize_models\<close>.\<close>

definition unfitted_detector :: AnomalyDetector where
  "unfitted_detector =
     \<lparr> models = [(''login'', IsolationForest None),
                 (''transaction'', LocalOutlierFactor False),
                 (''session'', IsolationForest None),
                 (''feature_usage'', IsolationForest None)],
       scalers = [(''login'', None), (''transaction'', None),
                  (''session'', None), (''feature_usage'', None)] \<rparr>"

text \<open>
  The feature rows that \<^verbatim>\<open>_initialize_models\<close> reads from one stored snapshot, per
  event type (training), and the row that \<^verbatim>\<open>_extract_features\<close> builds from the
  profile and the incoming event (scoring).
\<close>

fun get_all :: "pyval \<Rightarrow> string list \<Rightarrow> error + pyval list" where
  "get_all d [] = Inr []"
| "get_all d (k # ks) =
     (case dict_get d k (VInt 0) of
        Inl e \<Rightarrow> Inl e
      | Inr v \<Rightarrow> (case get_all d ks of Inl e \<Rightarrow> Inl e | Inr vs \<Rightarrow> Inr (v # vs)))"

definition login_snapshot_features :: "pyval \<Rightarrow> error + pyval list" where
  "login_snapshot_features snapshot =
     bind_result (dict_get snapshot ''login_metrics'' (VDict [])) (\<lambda>login_metrics.
       get_all login_metrics
         [''login_velocity_24h'', ''unique_locations'', ''unique_devices'',
          ''avg_login_interval''])"

definition transaction_snapshot_features :: "pyval \<Rightarrow> error + pyval list" where
  "transaction_snapshot_features snapshot =
     bind_result (dict_get snapshot ''transaction_metrics'' (VDict []))
       (\<lambda>transaction_metrics.
       get_all transaction_metrics
         [''transaction_velocity_24h'', ''avg_amount'', ''max_amount'',
          ''unique_merchants''])"

definition session_snapshot_features :: "pyval \<Rightarrow> error + pyval list" where
  "session_snapshot_features snapshot =
     bind_result (dict_get snapshot ''session_metrics'' (VDict [])) (\<lambda>session_metrics.
       get_all session_metrics
         [''session_velocity_24h'', ''avg_session_duration'', ''max_session_duration'',
          ''total_sessions''])"

definition feature_usage_snapshot_features :: "pyval \<Rightarrow> error + pyval list" where
  "feature_usage_snapshot_features snapshot =
     bind_result (dict_get snapshot ''feature_usage_metrics'' (VDict []))
       (\<lambda>feature_usage_metrics.
       get_all feature_usage_metrics
         [''feature_usage_velocity_24h'', ''unique_features_used'',
          ''avg_feature_frequency'', ''std_feature_frequency'', ''total_frequency''])"

definition extract_features :: "FraudProfile \<Rightarrow> string \<Rightarrow> event \<Rightarrow> error + real list" where
  "extract_features profile event_type event_data =
     (if event_type = ''login'' then
        Inr [of_int (login_velocity_24h (login_metrics profile)),
             of_int (unique_locations (login_metrics profile)),
             of_int (unique_devices (login_metrics profile)),
             avg_login_interval (login_metrics profile)]
      else if event_type = ''transaction'' then
        bind_result (bind_result (getitem event_data ''amount'') py_float) (\<lambda>amount.
          Inr [of_int (transaction_velocity_24h (transaction_metrics profile)),
               amount,
               avg_amount (transaction_metrics profile),
               of_int (unique_merchants (transaction_metrics profile))])
      else if event_type = ''feature_usage'' then
        Inr [of_int (feature_usage_velocity_24h (feature_usage_metrics profile)),
             of_int (unique_features_used (feature_usage_metrics profile)),
             avg_feature_frequency (feature_usage_metrics profile),
             std_feature_frequency (feature_usage_metrics profile),
             total_frequency (feature_usage_metrics profile)]
      else
        bind_result (bind_result (getitem event_data ''session_duration'') py_float)
          (\<lambda>duration.
          Inr [of_int (session_velocity_24h (session_metrics profile)),
               duration,
               avg_session_duration (session_metrics profile),
               of_int (total_sessions (session_metrics profile))]))"

text \<open>
  \<^verbatim>\<open>_initialize_models\<close>. The directory is \<open>None\<close> when \<^verbatim>\<open>profiles\<close> does not exist,
  otherwise its files in listing order. The whole body runs under
  \<^verbatim>\<open>except Exception\<close>, which prints and goes on: an exception while reading ends the
  method before anything is fitted, an exception while fitting keeps what was fitted
  before it.
\<close>

fun map_result :: "('a \<Rightarrow> error + 'b) \<Rightarrow> 'a list \<Rightarrow> error + 'b list" where
  "map_result f [] = Inr []"
| "map_result f (x # xs) =
     (case f x of
        Inl e \<Rightarrow> Inl e
      | Inr y \<Rightarrow> (case map_result f xs of Inl e \<Rightarrow> Inl e | Inr ys \<Rightarrow> Inr (y # ys)))"

definition endswith :: "string \<Rightarrow> string \<Rightarrow> bool" where
  "endswith s sfx = (length sfx \<le> length s \<and> drop (length s - length sfx) s = sfx)"

type_synonym all_features =
  "pyval list list \<times> pyval list list \<times> pyval list list \<times> pyval list list"

definition snapshot_features ::
    "pyval \<Rightarrow> error + (pyval list \<times> pyval list \<times> pyval list \<times> pyval list)" where
  "snapshot_features snapshot =
     bind_result (login_snapshot_features snapshot) (\<lambda>l.
     bind_result (transaction_snapshot_features snapshot) (\<lambda>t.
     bind_result (session_snapshot_features snapshot) (\<lambda>s.
     bind_result (feature_usage_snapshot_features snapshot) (\<lambda>u.
       Inr (l, t, s, u)))))"

fun collect_features :: "(string \<times> stored_file) list \<Rightarrow> error + all_features" where
  "collect_features [] = Inr ([], [], [], [])"
| "collect_features ((filename, f) # rest) =
     (if endswith filename ''.json'' then
        (case (case f of PartialFile \<Rightarrow> Inl JSONDecodeError
                       | JsonFile snapshot \<Rightarrow> snapshot_features snapshot) of
           Inl e \<Rightarrow> Inl e
         | Inr (l, t, s, u) \<Rightarrow>
             (case collect_features rest of
                Inl e \<Rightarrow> Inl e
              | Inr (ls, ts, ss, us) \<Rightarrow> Inr (l # ls, t # ts, s # ss, u # us)))
      else collect_features rest)"

definition fit_event_type ::
    "sklearn \<Rightarrow> string \<Rightarrow> pyval list list \<Rightarrow> AnomalyDetector
      \<Rightarrow> error option \<times> AnomalyDetector" where
  "fit_event_type sk event_type rows d =
     (if rows = [] then (None, d)
      else
        (case map_result np_array rows of
           Inl e \<Rightarrow> (Some e, d)
         | Inr features_array \<Rightarrow>
        (case scaler_fit sk features_array of
           Inl e \<Rightarrow> (Some e, d)
         | Inr f \<Rightarrow>
        let d = d\<lparr> scalers := AList.update event_type (Some f) (scalers d) \<rparr> in
        (case map_result f features_array of
           Inl e \<Rightarrow> (Some e, d)
         | Inr scaled_features \<Rightarrow>
        (case bind_result (getitem (models d) event_type)
                (\<lambda>m. estimator_fit sk m scaled_features) of
           Inl e \<Rightarrow> (Some e, d)
         | Inr m \<Rightarrow> (None, d\<lparr> models := AList.update event_type m (models d) \<rparr>))))))"

definition initialize_models ::
    "sklearn \<Rightarrow> (string \<times> stored_file) list option \<Rightarrow> AnomalyDetector \<Rightarrow> AnomalyDetector" where
  "initialize_models sk profiles_dir d =
     (case profiles_dir of
        None \<Rightarrow> d
      | Some files \<Rightarrow>
          (case collect_features files of
             Inl e \<Rightarrow> d
           | Inr (ls, ts, ss, us) \<Rightarrow>
               (case fit_event_type sk ''login'' ls d of
                  (Some e, d) \<Rightarrow> d
                | (None, d) \<Rightarrow>
               (case fit_event_type sk ''transaction'' ts d of
                  (Some e, d) \<Rightarrow> d
                | (None, d) \<Rightarrow>
               (case fit_event_type sk ''session'' ss d of
                  (Some e, d) \<Rightarrow> d
                | (None, d) \<Rightarrow> snd (fit_event_type sk ''feature_usage'' us d))))))"

definition new_detector :: "sklearn \<Rightarrow> (string \<times> stored_file) list option \<Rightarrow> AnomalyDetector" where
  "new_detector sk profiles_dir = initialize_models sk profiles_dir unfitted_detector"

text \<open>
  \<^verbatim>\<open>np.percentile(a, q)\<close> with numpy's default linear interpolation, on a non-empty
  list, and \<^verbatim>\<open>features[i]\<close>.
\<close>

definition np_percentile :: "real list \<Rightarrow> real \<Rightarrow> real" where
  "np_percentile xs q =
     (let a = sort xs;
          h = real (length a - 1) * q / 100;
          lo = nat \<lfloor>h\<rfloor>;
          hi = min (lo + 1) (length a - 1)
      in a ! lo + (h - real lo) * (a ! hi - a ! lo))"

definition item :: "'a list \<Rightarrow> nat \<Rightarrow> error + 'a" where
  "item xs i = (if i < length xs then Inr (xs ! i) else Inl IndexError)"

definition flag :: "bool \<Rightarrow> string \<Rightarrow> pyval" where
  "flag b label = (if b then VStr label else VNone)"

definition generate_explanation :: "string \<Rightarrow> real list \<Rightarrow> real \<Rightarrow> error + pyval" where
  "generate_explanation event_type features score =
     bind_result (item features 0) (\<lambda>f0.
     bind_result (item features 1) (\<lambda>f1.
     bind_result (item features 2) (\<lambda>f2.
     bind_result (item features 3) (\<lambda>f3.
     if event_type = ''login'' then
       Inr (VDict
         [(''velocity_24h'', VFloat f0), (''unique_locations'', VFloat f1),
          (''unique_devices'', VFloat f2), (''avg_interval'', VFloat f3),
          (''anomaly_score'', VFloat score),
          (''risk_factors'', VList
             [flag (f0 > 10) ''High login velocity'',
              flag (f1 > 3) ''Multiple locations'',
              flag (f2 > 2) ''Multiple devices''])])
     else if event_type = ''transaction'' then
       Inr (VDict
         [(''velocity_24h'', VFloat f0), (''amount'', VFloat f1),
          (''avg_amount'', VFloat f2), (''unique_merchants'', VFloat f3),
          (''anomaly_score'', VFloat score),
          (''risk_factors'', VList
             [flag (f0 > 20) ''High transaction velocity'',
              flag (f1 > f2 * 2) ''Large amount'',
              flag (f3 > 5) ''Unusual merchant''])])
     else if event_type = ''feature_usage'' then
       bind_result (item features 4) (\<lambda>f4.
       Inr (VDict
         [(''velocity_24h'', VFloat f0), (''unique_features'', VFloat f1),
          (''avg_frequency'', VFloat f2), (''std_frequency'', VFloat f3),
          (''total_frequency'', VFloat f4),
          (''anomaly_score'', VFloat score),
          (''risk_factors'', VList
             [flag (f0 > 50) ''High feature usage velocity'',
              flag (f1 > 10) ''Unusual number of features'',
              flag (f3 > f2) ''Abnormal usage frequency'',
              flag (f4 > 100) ''High total frequency''])]))
     else
       Inr (VDict
         [(''velocity_24h'', VFloat f0), (''duration'', VFloat f1),
          (''avg_duration'', VFloat f2), (''total_sessions'', VFloat f3),
          (''anomaly_score'', VFloat score),
          (''risk_factors'', VList
             [flag (f0 > 15) ''High session velocity'',
              flag (f1 > 3600) ''Long duration'',
              flag (f3 > 10) ''Multiple sessions''])])))))"

text \<open>
  \<^verbatim>\<open>detect_anomaly\<close>. \<^verbatim>\<open>score_samples\<close> is called on the one scaled sample, once
  for the score and once more for the percentile, which is taken over the resulting
  one-element array.
\<close>

definition raw_score ::
    "AnomalyDetector \<Rightarrow> string \<Rightarrow> real list \<Rightarrow> error + real" where
  "raw_score d event_type scaled_features =
     bind_result (getitem (models d) event_type) (\<lambda>m. score_samples m scaled_features)"

definition detect_anomaly ::
    "AnomalyDetector \<Rightarrow> FraudProfile \<Rightarrow> string \<Rightarrow> event \<Rightarrow> error + (bool \<times> real \<times> pyval)" where
  "detect_anomaly d profile event_type event_data =
     bind_result (extract_features profile event_type event_data) (\<lambda>features.
     bind_result (bind_result (getitem (scalers d) event_type) (\<lambda>s. transform s features))
       (\<lambda>scaled_features.
     bind_result
       (if event_type = ''login'' then
          bind_result (raw_score d event_type scaled_features) (\<lambda>score.
          bind_result (raw_score d event_type scaled_features) (\<lambda>s.
            Inr (score, score < np_percentile [s] 10)))
        else
          bind_result (raw_score d event_type scaled_features) (\<lambda>s0.
          let score = - s0 in
          bind_result (raw_score d event_type scaled_features) (\<lambda>s.
            Inr (score, score > np_percentile [- s] 90))))
       (\<lambda>(score, is_anomaly).
     bind_result (generate_explanation event_type features score) (\<lambda>explanation.
       Inr (is_anomaly, \<bar>score\<bar>, explanation)))))"

section \<open>Outcomes, sample events and the specification's velocity\<close>

definition raised :: "outcome \<Rightarrow> error option" where
  "raised out = fst out"

definition profile_of :: "outcome \<Rightarrow> FraudProfile" where
  "profile_of out = fst (snd out)"

definition store_of :: "outcome \<Rightarrow> store" where
  "store_of out = snd (snd out)"

text \<open>Events as the HTTP layer hands them over, with the fields the engine reads.\<close>

definition login_event :: "instant \<Rightarrow> event" where
  "login_event t =
     [(''timestamp'', VIso t), (''device_type'', VStr ''Mobile''),
      (''ip_address'', VStr ''1.1.1.1''), (''geolocation'', VStr ''10,10'')]"

definition transaction_event :: "instant \<Rightarrow> real \<Rightarrow> string \<Rightarrow> event" where
  "transaction_event t amount merchant =
     [(''timestamp'', VIso t), (''amount'', VFloat amount), (''merchant_id'', VStr merchant)]"

definition session_event :: "instant \<Rightarrow> real \<Rightarrow> event" where
  "session_event t duration =
     [(''start_time'', VIso t), (''session_duration'', VFloat duration)]"

definition feature_event :: "instant \<Rightarrow> string \<Rightarrow> real \<Rightarrow> event" where
  "feature_event t name frequency =
     [(''timestamp'', VIso t), (''feature_name'', VStr name), (''frequency'', VFloat frequency)]"

text \<open>
  The velocity of the specification, in its words: the number of history entries of the
  given type whose elapsed time from their own timestamp to the reference time is at
  most the window.
\<close>

definition spec_velocity :: "pyval list \<Rightarrow> string \<Rightarrow> instant \<Rightarrow> real \<Rightarrow> nat" where
  "spec_velocity history event_type reference_time window_seconds =
     length (filter (\<lambda>c. subscript c ''event_type'' = Inr (VStr event_type) \<and>
        (case bind_result (subscript c ''timestamp'') fromisoformat of
           Inr t \<Rightarrow> reference_time - t \<le> window_seconds
         | Inl e \<Rightarrow> False)) history)"

text \<open>
  A caller that keeps the profile object and goes on after an update, whether or not the
  update raised: the next call sees the profile and the store as the previous one left
  them.
\<close>

definition then_apply :: "outcome \<Rightarrow> (FraudProfile \<Rightarrow> store \<Rightarrow> outcome) \<Rightarrow> outcome" where
  "then_apply out f = (case out of (e, p, st) \<Rightarrow> f p st)"

text \<open>A profile that has processed one event of each kind, the login last.\<close>

definition one_of_each :: outcome where
  "one_of_each =
     then_apply (then_apply (then_apply
       (update_with_transaction (new_profile ''u'' 0)
          (transaction_event 0 100 ''m'') (0, 0) Map.empty)
       (\<lambda>p. update_with_session p (session_event 60 30) (60, 60)))
       (\<lambda>p. update_with_feature_usage p (feature_event 120 ''Bill Pay'' 1) (120, 120)))
       (\<lambda>p. update_with_login p (login_event 180) (180, 180))"

text \<open>A profile after two transactions, of amounts 100 and 300.\<close>

definition two_transactions :: outcome where
  "two_transactions =
     then_apply
       (update_with_transaction (new_profile ''u'' 0)
          (transaction_event 0 100 ''m'') (0, 0) Map.empty)
       (\<lambda>p. update_with_transaction p (transaction_event 600 300 ''m'') (600, 600))"

text \<open>
  No persisted snapshot: the directory is missing, or none of its files is named
  \<^verbatim>\<open>*.json\<close>.
\<close>

definition no_snapshots :: "(string \<times> stored_file) list option \<Rightarrow> bool" where
  "no_snapshots profiles_dir =
     (case profiles_dir of
        None \<Rightarrow> True
      | Some files \<Rightarrow> filter (\<lambda>(filename, f). endswith filename ''.json'') files = [])"

text \<open>
  Sample library behaviour for concrete runs: a library whose fits all raise, and a
  detector whose scalers are fitted to the identity and whose isolation forests score a
  sample \<open>x\<close> with \<open>- 1/2 - |sum x|\<close>.
\<close>

definition failing_sklearn :: sklearn where
  "failing_sklearn =
     \<lparr> scaler_fit = (\<lambda>X. Inl ValueError), forest_fit = (\<lambda>X. Inl ValueError),
       lof_fit = (\<lambda>X. Inl ValueError) \<rparr>"

definition fitted_detector :: AnomalyDetector where
  "fitted_detector =
     \<lparr> models =
         [(''login'', IsolationForest (Some (\<lambda>x. Inr (- 1 / 2 - \<bar>sum_list x\<bar>)))),
          (''transaction'', LocalOutlierFactor True),
          (''session'', IsolationForest (Some (\<lambda>x. Inr (- 1 / 2 - \<bar>sum_list x\<bar>)))),
          (''feature_usage'', IsolationForest (Some (\<lambda>x. Inr (- 1 / 2 - \<bar>sum_list x\<bar>))))],
       scalers =
         [(''login'', Some (\<lambda>x. Inr x)), (''transaction'', Some (\<lambda>x. Inr x)),
          (''session'', Some (\<lambda>x. Inr x)), (''feature_usage'', Some (\<lambda>x. Inr x))] \<rparr>"

text \<open>
  Two logins on a new profile, the second 600 seconds after the first; the clock
  readings of the two updates are inputs.
\<close>

definition two_logins ::
    "string \<Rightarrow> instant \<Rightarrow> instant \<Rightarrow> clock \<Rightarrow> clock \<Rightarrow> store \<Rightarrow> outcome" where
  "two_logins uid now t0 clk1 clk2 st =
     then_apply (update_with_login (new_profile uid now) (login_event t0) clk1 st)
       (\<lambda>p. update_with_login p (login_event (t0 + 600)) clk2)"

text \<open>
  A profile whose history holds one recorded login, one recorded transaction and one
  recorded feature-usage event.
\<close>

definition profile_with_history :: FraudProfile where
  "profile_with_history =
     (new_profile ''u'' 0)
       \<lparr> historical_changes :=
           [change_entry 0 ''login'' (login_event 0),
            change_entry 10 ''transaction'' (transaction_event 10 5 ''m''),
            change_entry 20 ''feature_usage'' (feature_event 20 ''Bill Pay'' 1)] \<rparr>"

text \<open>
  A run of transaction events through \<^verbatim>\<open>update_with_transaction\<close>, as the loops of
  \<^verbatim>\<open>create_user_features\<close> feed them: an exception ends the run. An event the method
  can process in full has a timestamp that parses, an amount that \<^verbatim>\<open>float\<close> accepts, a
  hashable merchant, and only values that JSON can encode.
\<close>

fun process_transactions :: "FraudProfile \<Rightarrow> store \<Rightarrow> (event \<times> clock) list \<Rightarrow> outcome" where
  "process_transactions p st [] = (None, p, st)"
| "process_transactions p st ((ev, clk) # rest) =
     (case update_with_transaction p ev clk st of
        (None, p', st') \<Rightarrow> process_transactions p' st' rest
      | (Some e, p', st') \<Rightarrow> (Some e, p', st'))"

definition transaction_ok :: "event \<Rightarrow> bool" where
  "transaction_ok ev =
     (\<not> isl (bind_result (getitem ev ''timestamp'') fromisoformat)
      \<and> \<not> isl (bind_result (getitem ev ''amount'') py_float)
      \<and> \<not> isl (bind_result (getitem ev ''merchant_id'') len_set1)
      \<and> json_serializable (VDict ev))"

definition amount_of :: "event \<Rightarrow> real" where
  "amount_of ev =
     (case bind_result (getitem ev ''amount'') py_float of Inr a \<Rightarrow> a | Inl e \<Rightarrow> 0)"

definition three_transactions :: "(event \<times> clock) list" where
  "three_transactions =
     [(transaction_event 0 100 ''m'', (0, 0)),
      (transaction_event 60 200 ''m'', (60, 60)),
      (transaction_event 120 300 ''m'', (120, 120))]"

text \<open>
  Invariant of the run: the history entries can be scanned and encoded, the login
  timestamp can be encoded, and the transaction counter is not negative.
\<close>

definition recorded :: "pyval \<Rightarrow> bool" where
  "recorded c =
     (\<not> isl (subscript c ''event_type'')
      \<and> \<not> isl (bind_result (subscript c ''timestamp'') fromisoformat)
      \<and> json_serializable c)"

definition sound_profile :: "FraudProfile \<Rightarrow> bool" where
  "sound_profile p =
     (0 \<le> total_transactions (transaction_metrics p)
      \<and> list_all recorded (historical_changes p)
      \<and> json_serializable (last_login_time (login_metrics p)))"

section \<open>Evaluation and basic facts\<close>

lemmas update_defs =
  update_with_login_def update_with_transaction_def update_with_session_def
  update_with_feature_usage_def try_step_def bind_result_def getitem_def len_set1_def
  truediv_def update_velocity_metrics_def record_change_def change_entry_def
  update_risk_scores_def save_profile_def profile_data_def login_metrics_dict_def
  transaction_metrics_dict_def session_metrics_dict_def feature_usage_metrics_dict_def
  risk_scores_dict_def new_profile_def Let_def raised_def profile_of_def store_of_def
  login_event_def transaction_event_def session_event_def feature_event_def

lemma fromisoformat_Inr [simp]: "fromisoformat v = Inr t \<longleftrightarrow> v = VIso t"
  by (cases v) auto

lemma outcome_simps [simp]:
  "profile_of (e, q, st) = q" "raised (e, q, st) = e" "store_of (e, q, st) = st"
  by (simp_all add: profile_of_def raised_def store_of_def)

lemma save_profile_profile [simp]: "profile_of (save_profile q st) = q"
  by (simp add: save_profile_def)

section \<open>Session velocity\<close>

text \<open>
  C8. The claim: a session update on a profile whose history holds a session entry reads
  each stored session entry's \<^verbatim>\<open>start_time\<close> and succeeds. The code: \<^verbatim>\<open>_record_change\<close>
  stores an entry with the keys \<^verbatim>\<open>timestamp\<close>, \<^verbatim>\<open>event_type\<close> and \<^verbatim>\<open>event_data\<close>
  only, so \<^verbatim>\<open>change["start_time"]\<close> raises KeyError. After a first session at
  instant 0 (which succeeds and is stored), the velocity computation of a second one at
  instant 600 raises KeyError, and so does the update.
\<close>

theorem second_session_update_raises_KeyError:
  "raised (update_with_session (new_profile ''u'' 0) (session_event 0 60) (0, 0) Map.empty)
     = None
   \<and> velocity
       (historical_changes (profile_of
          (update_with_session (new_profile ''u'' 0) (session_event 0 60) (0, 0) Map.empty)))
       ''session'' ''start_time'' 600 86400 = Inl KeyError
   \<and> raised
       (update_with_session
          (profile_of
             (update_with_session (new_profile ''u'' 0) (session_event 0 60) (0, 0) Map.empty))
          (session_event 600 60) (600, 600)
          (store_of
             (update_with_session (new_profile ''u'' 0) (session_event 0 60) (0, 0) Map.empty)))
     = Some KeyError"
  by (simp add: update_defs)

section \<open>Risk scores\<close>

lemma risk_scores_at_most_one:
  "login_risk (risk_scores (update_risk_scores p)) \<le> 1
   \<and> transaction_risk (risk_scores (update_risk_scores p)) \<le> 1
   \<and> session_risk (risk_scores (update_risk_scores p)) \<le> 1
   \<and> feature_usage_risk (risk_scores (update_risk_scores p)) \<le> 1
   \<and> overall_risk (risk_scores (update_risk_scores p)) \<le> 1"
proof -
  have "min 1 a * 0.3 + min 1 b * 0.3 + min 1 c * 0.2 + min 1 d * 0.2 \<le> 1"
    for a b c d :: real
  proof -
    have "min 1 a \<le> 1" "min 1 b \<le> 1" "min 1 c \<le> 1" "min 1 d \<le> 1"
      by simp_all
    then show ?thesis by linarith
  qed
  then show ?thesis
    by (simp add: update_risk_scores_def Let_def)
qed

text \<open>
  C4. The claim: every risk score and the overall risk lie in [0,1] whatever the event
  amounts are. The code clamps with \<^verbatim>\<open>min(1.0, ...)\<close> only, although its comments give
  the range 0-1: one transaction of amount -10000 on a new profile is processed without
  error and leaves a transaction risk of -3.97 and an overall risk of -1.191.
\<close>

theorem negative_amount_gives_negative_risk:
  "raised (update_with_transaction (new_profile ''u'' 0)
       (transaction_event 0 (- 10000) ''m'') (0, 0) Map.empty) = None
   \<and> transaction_risk (risk_scores (profile_of (update_with_transaction (new_profile ''u'' 0)
       (transaction_event 0 (- 10000) ''m'') (0, 0) Map.empty))) = - 397 / 100
   \<and> overall_risk (risk_scores (profile_of (update_with_transaction (new_profile ''u'' 0)
       (transaction_event 0 (- 10000) ''m'') (0, 0) Map.empty))) = - 1191 / 1000"
  by (simp add: update_defs)

section \<open>Persistence\<close>

lemma save_profile_datetime:
  "last_login_time (login_metrics p) = VDatetime t \<Longrightarrow>
   save_profile p st = (Some TypeError, p, st(user_id p \<mapsto> PartialFile))"
  by (simp add: save_profile_def profile_data_def login_metrics_dict_def)

text \<open>
  C9. The claim: for a profile that has processed at least one event of each kind, the
  save succeeds and a reload gives the same metrics and history. The code:
  \<^verbatim>\<open>update_with_login\<close> stores a datetime object in \<^verbatim>\<open>last_login_time\<close>, and
  \<^verbatim>\<open>_save_profile\<close> hands the \<^verbatim>\<open>__dict__\<close> of the login metrics to \<^verbatim>\<open>json.dump\<close>
  unconverted (\<^verbatim>\<open>last_updated\<close>, next to it, is converted with \<^verbatim>\<open>isoformat()\<close>). For
  the profile \<open>one_of_each\<close> the save inside the login update raises TypeError, saving
  again raises TypeError, and the stored file is left truncated, so there is nothing to
  reload.
\<close>

theorem save_fails_after_one_event_of_each_kind:
  "raised one_of_each = Some TypeError
   \<and> total_logins (login_metrics (profile_of one_of_each)) = 1
   \<and> total_transactions (transaction_metrics (profile_of one_of_each)) = 1
   \<and> total_sessions (session_metrics (profile_of one_of_each)) = 1
   \<and> feature_usage_count (feature_usage_metrics (profile_of one_of_each)) = 1
   \<and> raised (save_profile (profile_of one_of_each) (store_of one_of_each)) = Some TypeError
   \<and> store_of (save_profile (profile_of one_of_each) (store_of one_of_each)) ''u''
       = Some PartialFile"
proof -
  obtain e p st where out: "one_of_each = (e, p, st)"
    by (cases one_of_each) auto
  have "e = Some TypeError
     \<and> total_logins (login_metrics p) = 1
     \<and> total_transactions (transaction_metrics p) = 1
     \<and> total_sessions (session_metrics p) = 1
     \<and> feature_usage_count (feature_usage_metrics p) = 1
     \<and> last_login_time (login_metrics p) = VDatetime 180 \<and> user_id p = ''u''"
    using out[symmetric] unfolding one_of_each_def then_apply_def
    by (simp add: update_defs)
  then show ?thesis
    by (simp add: out save_profile_datetime)
qed

section \<open>Training rows and scoring rows\<close>

lemma transaction_training_row:
  "bind_result (transaction_snapshot_features (profile_data p)) np_array
     = Inr [of_int (transaction_velocity_24h (transaction_metrics p)),
            avg_amount (transaction_metrics p),
            max_amount (transaction_metrics p),
            of_int (unique_merchants (transaction_metrics p))]"
  by (simp add: transaction_snapshot_features_def profile_data_def
      transaction_metrics_dict_def bind_result_def)

text \<open>
  C10. The row that \<^verbatim>\<open>_initialize_models\<close> reads from a stored snapshot to fit the
  transaction scaler and model is [velocity, avg_amount, max_amount, unique_merchants];
  the row that \<^verbatim>\<open>_extract_features\<close> builds at scoring time is [velocity, event amount,
  avg_amount, unique_merchants]. For the profile stored after transactions of 100 and
  300, and an incoming transaction of 50, the training row is [1, 200, 300, 1] and the
  scoring row is [1, 50, 200, 1]: they differ at positions 1 and 2.
\<close>

theorem training_and_scoring_rows_differ:
  "store_of two_transactions ''u''
     = Some (JsonFile (profile_data (profile_of two_transactions)))
   \<and> bind_result (transaction_snapshot_features (profile_data (profile_of two_transactions)))
        np_array = Inr [1, 200, 300, 1]
   \<and> extract_features (profile_of two_transactions) ''transaction''
        (transaction_event 1200 50 ''m'') = Inr [1, 50, 200, 1]"
proof -
  obtain e p st where out: "two_transactions = (e, p, st)"
    by (cases two_transactions) auto
  have "st ''u'' = Some (JsonFile (profile_data p))
     \<and> transaction_velocity_24h (transaction_metrics p) = 1
     \<and> avg_amount (transaction_metrics p) = 200
     \<and> max_amount (transaction_metrics p) = 300
     \<and> unique_merchants (transaction_metrics p) = 1"
    using out[symmetric] unfolding two_transactions_def then_apply_def
    by (simp add: update_defs)
  then have "st ''u'' = Some (JsonFile (profile_data p))"
    and "bind_result (transaction_snapshot_features (profile_data p)) np_array
           = Inr [1, 200, 300, 1]"
    and "extract_features p ''transaction'' (transaction_event 1200 50 ''m'')
           = Inr [1, 50, 200, 1]"
    by (simp_all add: transaction_training_row)
      (simp add: extract_features_def transaction_event_def bind_result_def getitem_def)
  then show ?thesis
    by (simp add: out)
qed

section \<open>Scoring\<close>

lemma collect_features_no_json:
  "filter (\<lambda>(filename, f). endswith filename ''.json'') files = [] \<Longrightarrow>
   collect_features files = Inr ([], [], [], [])"
  by (induction files) (auto split: if_splits)

lemma new_detector_unfitted:
  "no_snapshots profiles_dir \<Longrightarrow> new_detector sk profiles_dir = unfitted_detector"
  by (auto simp: no_snapshots_def new_detector_def initialize_models_def fit_event_type_def
      collect_features_no_json split: option.splits)

lemma detect_anomaly_unfitted:
  "detect_anomaly unfitted_detector p ty ev =
     (case extract_features p ty ev of
        Inl e \<Rightarrow> Inl e
      | Inr f \<Rightarrow>
          if ty \<in> set [''login'', ''transaction'', ''session'', ''feature_usage'']
          then Inl NotFittedError else Inl KeyError)"
  by (auto simp: detect_anomaly_def unfitted_detector_def bind_result_def getitem_def
      transform_def split: sum.splits)

text \<open>
  C7. With no persisted snapshot when the detector is built, nothing is fitted, and every
  call of \<^verbatim>\<open>detect_anomaly\<close> raises: it never returns a score. When the features of
  the event can be extracted and the event type is one of the four, the exception is
  the library's NotFittedError, raised by the scaler's \<^verbatim>\<open>transform\<close>: the code's form of
  the specification's ModelUnavailableError.
\<close>

theorem unfitted_bank_never_scores:
  assumes "no_snapshots profiles_dir"
  shows "(\<exists>e. detect_anomaly (new_detector sk profiles_dir) p ty ev = Inl e)
     \<and> (extract_features p ty ev = Inr f
          \<and> ty \<in> set [''login'', ''transaction'', ''session'', ''feature_usage'']
        \<longrightarrow> detect_anomaly (new_detector sk profiles_dir) p ty ev = Inl NotFittedError)"
  using assms
  by (auto simp: new_detector_unfitted detect_anomaly_unfitted split: sum.splits)

theorem unfitted_bank_never_scores_witness:
  "no_snapshots (Some [(''notes.txt'', PartialFile)])
   \<and> extract_features (new_profile ''u'' 0) ''login'' (login_event 0) = Inr [0, 0, 0, 0]
   \<and> detect_anomaly (new_detector failing_sklearn (Some [(''notes.txt'', PartialFile)]))
        (new_profile ''u'' 0) ''login'' (login_event 0) = Inl NotFittedError"
  using unfitted_bank_never_scores
    [of "Some [(''notes.txt'', PartialFile)]" failing_sklearn "new_profile ''u'' 0"
        "''login''" "login_event 0" "[0, 0, 0, 0]"]
  by (simp add: no_snapshots_def endswith_def extract_features_def new_profile_def)

lemma np_percentile_single [simp]: "np_percentile [x] q = x"
  by (simp add: np_percentile_def)

lemmas detect_defs =
  detect_anomaly_def fitted_detector_def extract_features_def new_profile_def
  bind_result_def getitem_def transform_def raw_score_def generate_explanation_def
  item_def flag_def login_event_def feature_event_def

text \<open>
  C6. The claim: against a fitted bank the returned \<^verbatim>\<open>is_anomaly\<close> is true, and the
  confidence is the absolute value of the raw score. The code compares the sample's
  score strictly (\<^verbatim>\<open><\<close> for a login, \<^verbatim>\<open>>\<close> otherwise) with a percentile of the
  one-element array holding that same score, which is the score itself: the comparison
  is false. A login scored by \<open>fitted_detector\<close> returns, with \<^verbatim>\<open>is_anomaly\<close> false and
  confidence 1/2.
\<close>

theorem fitted_login_score_is_not_anomalous:
  "\<not> isl (detect_anomaly fitted_detector (new_profile ''u'' 0) ''login'' (login_event 0))
   \<and> fst (projr (detect_anomaly fitted_detector (new_profile ''u'' 0) ''login''
        (login_event 0))) = False
   \<and> fst (snd (projr (detect_anomaly fitted_detector (new_profile ''u'' 0) ''login''
        (login_event 0)))) = 1 / 2"
  by (simp add: detect_defs)

text \<open>
  C6, amended: whenever \<^verbatim>\<open>detect_anomaly\<close> returns, \<^verbatim>\<open>is_anomaly\<close> is false, and the
  confidence is the absolute value of the raw score that the model gives to the scaled
  features of the event.
\<close>

theorem single_sample_is_never_anomalous:
  assumes "detect_anomaly d p ty ev = Inr (is_anomaly, confidence, explanation)"
  shows "is_anomaly = False
     \<and> (\<exists>features scaled s.
          extract_features p ty ev = Inr features
        \<and> bind_result (getitem (scalers d) ty) (\<lambda>sc. transform sc features) = Inr scaled
        \<and> raw_score d ty scaled = Inr s
        \<and> confidence = \<bar>s\<bar>)"
  using assms
  by (auto simp: detect_anomaly_def bind_result_def Let_def split: sum.splits if_splits)

theorem single_sample_is_never_anomalous_witness:
  "detect_anomaly fitted_detector (new_profile ''u'' 0) ''feature_usage''
       (feature_event 0 ''Bill Pay'' 1)
     = Inr (False, 1 / 2,
         snd (snd (projr (detect_anomaly fitted_detector (new_profile ''u'' 0)
           ''feature_usage'' (feature_event 0 ''Bill Pay'' 1)))))
   \<and> raw_score fitted_detector ''feature_usage'' [0, 0, 0, 0, 0] = Inr (- 1 / 2)"
  using single_sample_is_never_anomalous
    [of fitted_detector "new_profile ''u'' 0" "''feature_usage''"
        "feature_event 0 ''Bill Pay'' 1" False "1 / 2"
        "snd (snd (projr (detect_anomaly fitted_detector (new_profile ''u'' 0)
           ''feature_usage'' (feature_event 0 ''Bill Pay'' 1))))"]
  by (simp add: detect_defs)

section \<open>Reasoning about the update methods\<close>

text \<open>
  The update methods are chains of \<open>try_step\<close> closed by the velocity update. A property
  of the outcome is shown by following the chain: it holds where a step raises, and it
  holds for the rest of the method where the step returns.
\<close>

lemma try_stepI:
  assumes "\<And>e. r = Inl e \<Longrightarrow> P (Some e, p, st)" and "\<And>x. r = Inr x \<Longrightarrow> P (k x)"
  shows "P (try_step r p st k)"
  using assms by (cases r) (auto simp: try_step_def)

lemma velocity_stepI:
  assumes "\<And>e q'. update_velocity_metrics ty cur q = (Some e, q') \<Longrightarrow> P (Some e, q', st)"
    and "\<And>q'. update_velocity_metrics ty cur q = (None, q') \<Longrightarrow> P (k q')"
  shows "P (case update_velocity_metrics ty cur q of
              (Some e, q') \<Rightarrow> (Some e, q', st)
            | (None, q') \<Rightarrow> k q')"
  using assms by (cases "update_velocity_metrics ty cur q") (auto split: option.splits)

lemma try_step_simps [simp]:
  "try_step (Inr x) p st k = k x" "try_step (Inl e) p st k = (Some e, p, st)"
  by (simp_all add: try_step_def)

lemma bind_result_simps [simp]:
  "bind_result (Inr x) f = f x" "bind_result (Inl e) f = Inl e"
  by (simp_all add: bind_result_def)

lemma len_set1_hashable [simp]: "hashable v \<Longrightarrow> len_set1 v = Inr 1"
  by (simp add: len_set1_def)

lemma not_isl_iff: "\<not> isl r \<longleftrightarrow> (\<exists>x. r = Inr x)"
  by (cases r) auto

lemma update_velocity_metrics_frame:
  assumes "update_velocity_metrics ty cur q = (r, q')"
  shows "historical_changes q' = historical_changes q"
    and "unique_devices (login_metrics q') = unique_devices (login_metrics q)"
    and "unique_ips (login_metrics q') = unique_ips (login_metrics q)"
    and "unique_locations (login_metrics q') = unique_locations (login_metrics q)"
    and "unique_merchants (transaction_metrics q') = unique_merchants (transaction_metrics q)"
  using assms
  by (auto simp: update_velocity_metrics_def Let_def split: if_splits sum.splits)

section \<open>Unique counts\<close>

lemma login_unique_counts:
  assumes "getitem ev ''timestamp'' = Inr (VIso t)"
    and "getitem ev ''device_type'' = Inr d" "hashable d"
    and "getitem ev ''ip_address'' = Inr i" "hashable i"
    and "getitem ev ''geolocation'' = Inr g" "hashable g"
  shows "unique_devices (login_metrics (profile_of (update_with_login p ev clk st))) = 1
     \<and> unique_ips (login_metrics (profile_of (update_with_login p ev clk st))) = 1
     \<and> unique_locations (login_metrics (profile_of (update_with_login p ev clk st))) = 1"
proof -
  define P where "P = (\<lambda>out. unique_devices (login_metrics (profile_of out)) = 1
     \<and> unique_ips (login_metrics (profile_of out)) = 1
     \<and> unique_locations (login_metrics (profile_of out)) = 1)"
  have "P (update_with_login p ev clk st)"
    unfolding update_with_login_def Let_def
    apply (simp only: assms bind_result_simps try_step_simps fromisoformat.simps
        len_set1_hashable)
  proof (rule try_stepI, goal_cases)
    case (1 e)
    show ?case by (simp add: P_def)
  next
    case (2 x)
    then have ux: "unique_devices (login_metrics x) = 1 \<and> unique_ips (login_metrics x) = 1
        \<and> unique_locations (login_metrics x) = 1"
      by (auto split: if_splits sum.splits simp: bind_result_def)
    show ?case
    proof (rule velocity_stepI, goal_cases)
      case (1 e q')
      with ux update_velocity_metrics_frame(2-4)[OF 1] show ?case
        by (simp add: P_def)
    next
      case (2 q')
      with ux update_velocity_metrics_frame(2-4)[OF 2] show ?case
        by (simp add: P_def update_risk_scores_def record_change_def Let_def)
    qed
  qed
  then show ?thesis by (simp add: P_def)
qed

lemma transaction_unique_merchants:
  assumes "getitem ev ''timestamp'' = Inr (VIso t)"
    and "getitem ev ''amount'' = Inr av" "py_float av = Inr a"
    and "total_transactions (transaction_metrics p) \<noteq> - 1"
    and "getitem ev ''merchant_id'' = Inr m" "hashable m"
  shows "unique_merchants
           (transaction_metrics (profile_of (update_with_transaction p ev clk st))) = 1"
proof -
  define P where "P = (\<lambda>out. unique_merchants (transaction_metrics (profile_of out)) = 1)"
  have nz: "total_transactions (transaction_metrics p) + 1 \<noteq> 0"
    using assms(4) by arith
  have "P (update_with_transaction p ev clk st)"
    unfolding update_with_transaction_def Let_def
    apply (simp add: assms nz truediv_def)
  proof (rule velocity_stepI, goal_cases)
    case (1 e q')
    with update_velocity_metrics_frame(5)[OF 1] show ?case
      by (simp add: P_def)
  next
    case (2 q')
    with update_velocity_metrics_frame(5)[OF 2] show ?case
      by (simp add: P_def update_risk_scores_def record_change_def Let_def)
  qed
  then show ?thesis by (simp add: P_def)
qed

text \<open>
  C5. After a login update that read its timestamp and its three fields (each present
  and hashable), \<^verbatim>\<open>unique_devices\<close>, \<^verbatim>\<open>unique_ips\<close> and \<^verbatim>\<open>unique_locations\<close> are 1;
  after a transaction update that read its timestamp, amount and merchant,
  \<^verbatim>\<open>unique_merchants\<close> is 1. The profile, and so its history and its earlier counts, is
  arbitrary (the transaction counter must not be -1, where the average would divide by
  zero before the merchant is read), and the counts hold whether or not a later statement
  of the method raises.
\<close>

theorem unique_counts_are_one:
  "(getitem login_ev ''timestamp'' = Inr (VIso t)
      \<and> getitem login_ev ''device_type'' = Inr d \<and> hashable d
      \<and> getitem login_ev ''ip_address'' = Inr i \<and> hashable i
      \<and> getitem login_ev ''geolocation'' = Inr g \<and> hashable g
    \<longrightarrow> unique_devices (login_metrics (profile_of (update_with_login p login_ev clk st))) = 1
      \<and> unique_ips (login_metrics (profile_of (update_with_login p login_ev clk st))) = 1
      \<and> unique_locations
          (login_metrics (profile_of (update_with_login p login_ev clk st))) = 1)
   \<and> (getitem tx_ev ''timestamp'' = Inr (VIso t')
      \<and> getitem tx_ev ''amount'' = Inr av \<and> py_float av = Inr a
      \<and> total_transactions (transaction_metrics q) \<noteq> - 1
      \<and> getitem tx_ev ''merchant_id'' = Inr m \<and> hashable m
    \<longrightarrow> unique_merchants
          (transaction_metrics (profile_of (update_with_transaction q tx_ev clk' st'))) = 1)"
  using login_unique_counts[of login_ev t d i g p clk st]
    transaction_unique_merchants[of tx_ev t' av a q m clk' st']
  by blast

theorem unique_counts_are_one_witness:
  "getitem (login_event 600) ''device_type'' = Inr (VStr ''Mobile'')
   \<and> unique_devices (login_metrics profile_with_history) = 0
   \<and> unique_devices (login_metrics (profile_of
        (update_with_login profile_with_history (login_event 600) (600, 600) Map.empty))) = 1
   \<and> unique_ips (login_metrics (profile_of
        (update_with_login profile_with_history (login_event 600) (600, 600) Map.empty))) = 1
   \<and> unique_locations (login_metrics (profile_of
        (update_with_login profile_with_history (login_event 600) (600, 600) Map.empty))) = 1
   \<and> unique_merchants (transaction_metrics (profile_of
        (update_with_transaction profile_with_history (transaction_event 600 50 ''shop'')
           (600, 600) Map.empty))) = 1"
  using unique_counts_are_one
    [of "login_event 600" 600 "VStr ''Mobile''" "VStr ''1.1.1.1''" "VStr ''10,10''"
        profile_with_history "(600, 600)" Map.empty
        "transaction_event 600 50 ''shop''" 600 "VFloat 50" 50 profile_with_history
        "VStr ''shop''" "(600, 600)" Map.empty]
  by (simp add: login_event_def transaction_event_def getitem_def profile_with_history_def
      new_profile_def)

section \<open>Velocity fields\<close>

lemma velocity_spec:
  "velocity h ty ''timestamp'' cur w = Inr n \<Longrightarrow> n = spec_velocity h ty cur w"
proof (induction h arbitrary: n)
  case Nil
  then show ?case by (simp add: spec_velocity_def)
next
  case (Cons c h)
  then show ?case
    by (auto simp: spec_velocity_def split: sum.splits if_splits)
qed

lemma update_velocity_metrics_login:
  assumes "update_velocity_metrics ''login'' cur q = (None, q')"
  shows "login_velocity_24h (login_metrics q') = int (spec_velocity (historical_changes q) ''login'' cur 86400)
     \<and> login_velocity_7d (login_metrics q') = int (spec_velocity (historical_changes q) ''login'' cur 604800)"
  using assms
  by (auto simp: update_velocity_metrics_def Let_def split: sum.splits dest!: velocity_spec)

lemma update_velocity_metrics_transaction:
  assumes "update_velocity_metrics ''transaction'' cur q = (None, q')"
  shows "transaction_velocity_24h (transaction_metrics q') = int (spec_velocity (historical_changes q) ''transaction'' cur 86400)
     \<and> transaction_velocity_7d (transaction_metrics q') = int (spec_velocity (historical_changes q) ''transaction'' cur 604800)"
  using assms
  by (auto simp: update_velocity_metrics_def Let_def split: sum.splits dest!: velocity_spec)

lemma update_velocity_metrics_feature_usage:
  assumes "update_velocity_metrics ''feature_usage'' cur q = (None, q')"
  shows "feature_usage_velocity_24h (feature_usage_metrics q') = int (spec_velocity (historical_changes q) ''feature_usage'' cur 86400)
     \<and> feature_usage_velocity_7d (feature_usage_metrics q') = int (spec_velocity (historical_changes q) ''feature_usage'' cur 604800)"
  using assms
  by (auto simp: update_velocity_metrics_def Let_def split: sum.splits dest!: velocity_spec)

lemma login_velocity_recorded:
  assumes ts: "getitem ev ''timestamp'' = Inr (VIso cur)"
    and grew: "historical_changes (profile_of (update_with_login p ev clk st)) \<noteq> historical_changes p"
  shows "login_velocity_24h (login_metrics (profile_of (update_with_login p ev clk st)))
           = int (spec_velocity (historical_changes p) ''login'' cur 86400)
       \<and> login_velocity_7d (login_metrics (profile_of (update_with_login p ev clk st)))
           = int (spec_velocity (historical_changes p) ''login'' cur 604800)"
proof -
  define P where "P = (\<lambda>out. historical_changes (profile_of out) = historical_changes p \<or>
      (login_velocity_24h (login_metrics (profile_of out))
           = int (spec_velocity (historical_changes p) ''login'' cur 86400)
       \<and> login_velocity_7d (login_metrics (profile_of out))
           = int (spec_velocity (historical_changes p) ''login'' cur 604800)))"
  have "P (update_with_login p ev clk st)"
    unfolding update_with_login_def Let_def
    apply (simp only: ts bind_result_simps try_step_simps fromisoformat.simps)
  proof (rule try_stepI, goal_cases)
    case (1 e) show ?case by (simp add: P_def)
  next
    case (2 n1) show ?case
    proof (rule try_stepI, goal_cases)
      case (1 e) show ?case by (simp add: P_def)
    next
      case (2 n2) show ?case
      proof (rule try_stepI, goal_cases)
        case (1 e) show ?case by (simp add: P_def)
      next
        case (2 n3) show ?case
        proof (rule try_stepI, goal_cases)
          case (1 e) show ?case by (simp add: P_def)
        next
          case (2 x)
          then have hx: "historical_changes x = historical_changes p"
            by (auto split: if_splits sum.splits simp: bind_result_def)
          show ?case
          proof (rule velocity_stepI, goal_cases)
            case (1 e q')
            with hx update_velocity_metrics_frame(1)[OF 1] show ?case
              by (simp add: P_def)
          next
            case (2 q')
            with hx update_velocity_metrics_login[OF 2] show ?case
              by (simp add: P_def update_risk_scores_def record_change_def Let_def)
          qed
        qed
      qed
    qed
  qed
  with grew show ?thesis by (simp add: P_def)
qed

lemma transaction_velocity_recorded:
  assumes ts: "getitem ev ''timestamp'' = Inr (VIso cur)"
    and grew: "historical_changes (profile_of (update_with_transaction p ev clk st)) \<noteq> historical_changes p"
  shows "transaction_velocity_24h (transaction_metrics (profile_of (update_with_transaction p ev clk st)))
           = int (spec_velocity (historical_changes p) ''transaction'' cur 86400)
       \<and> transaction_velocity_7d (transaction_metrics (profile_of (update_with_transaction p ev clk st)))
           = int (spec_velocity (historical_changes p) ''transaction'' cur 604800)"
proof -
  define P where "P = (\<lambda>out. historical_changes (profile_of out) = historical_changes p \<or>
      (transaction_velocity_24h (transaction_metrics (profile_of out))
           = int (spec_velocity (historical_changes p) ''transaction'' cur 86400)
       \<and> transaction_velocity_7d (transaction_metrics (profile_of out))
           = int (spec_velocity (historical_changes p) ''transaction'' cur 604800)))"
  have "P (update_with_transaction p ev clk st)"
    unfolding update_with_transaction_def Let_def
    apply (simp only: ts bind_result_simps try_step_simps fromisoformat.simps)
  proof (rule try_stepI, goal_cases)
    case (1 e) show ?case by (simp add: P_def)
  next
    case (2 amount) show ?case
    proof (rule try_stepI, goal_cases)
      case (1 e) show ?case by (simp add: P_def)
    next
      case (2 a) show ?case
      proof (rule try_stepI, goal_cases)
        case (1 e) show ?case by (simp add: P_def)
      next
        case (2 n) show ?case
        proof (rule velocity_stepI, goal_cases)
          case (1 e q')
          with update_velocity_metrics_frame(1)[OF 1] show ?case
            by (simp add: P_def)
        next
          case (2 q')
          with update_velocity_metrics_transaction[OF 2] show ?case
            by (simp add: P_def update_risk_scores_def record_change_def Let_def)
        qed
      qed
    qed
  qed
  with grew show ?thesis by (simp add: P_def)
qed

lemma feature_usage_velocity_recorded:
  assumes ts: "getitem ev ''timestamp'' = Inr (VIso cur)"
    and grew: "historical_changes (profile_of (update_with_feature_usage p ev clk st)) \<noteq> historical_changes p"
  shows "feature_usage_velocity_24h (feature_usage_metrics (profile_of (update_with_feature_usage p ev clk st)))
           = int (spec_velocity (historical_changes p) ''feature_usage'' cur 86400)
       \<and> feature_usage_velocity_7d (feature_usage_metrics (profile_of (update_with_feature_usage p ev clk st)))
           = int (spec_velocity (historical_changes p) ''feature_usage'' cur 604800)"
proof -
  define P where "P = (\<lambda>out. historical_changes (profile_of out) = historical_changes p \<or>
      (feature_usage_velocity_24h (feature_usage_metrics (profile_of out))
           = int (spec_velocity (historical_changes p) ''feature_usage'' cur 86400)
       \<and> feature_usage_velocity_7d (feature_usage_metrics (profile_of out))
           = int (spec_velocity (historical_changes p) ''feature_usage'' cur 604800)))"
  have "P (update_with_feature_usage p ev clk st)"
    unfolding update_with_feature_usage_def Let_def
    apply (simp only: ts bind_result_simps try_step_simps fromisoformat.simps)
  proof (rule try_stepI, goal_cases)
    case (1 e) show ?case by (simp add: P_def)
  next
    case (2 frequency) show ?case
    proof (rule try_stepI, goal_cases)
      case (1 e) show ?case by (simp add: P_def)
    next
      case (2 a) show ?case
      proof (rule try_stepI, goal_cases)
        case (1 e) show ?case by (simp add: P_def)
      next
        case (2 vs) show ?case
        proof (rule try_stepI, goal_cases)
          case (1 e) show ?case by (simp add: P_def)
        next
          case (2 sd) show ?case
          proof (rule velocity_stepI, goal_cases)
            case (1 e q')
            with update_velocity_metrics_frame(1)[OF 1] show ?case
              by (simp add: P_def)
          next
            case (2 q')
            with update_velocity_metrics_feature_usage[OF 2] show ?case
              by (simp add: P_def update_risk_scores_def record_change_def Let_def)
          qed
        qed
      qed
    qed
  qed
  with grew show ?thesis by (simp add: P_def)
qed

text \<open>
  C1. The claim: after every update the 24h and 7d velocity fields count the same-type
  history entries within the window, the event being processed included. The code
  recomputes the velocity before \<^verbatim>\<open>_record_change\<close> appends the event: after the first
  login of a new profile (event time 0, clock reading 0) \<^verbatim>\<open>login_velocity_24h\<close> is 0,
  while the history then holds one login entry within the window.
\<close>

theorem velocity_excludes_processed_event:
  "login_velocity_24h (login_metrics (profile_of
       (update_with_login (new_profile ''u'' 0) (login_event 0) (0, 0) Map.empty))) = 0
   \<and> spec_velocity (historical_changes (profile_of
       (update_with_login (new_profile ''u'' 0) (login_event 0) (0, 0) Map.empty)))
       ''login'' 0 86400 = 1"
proof -
  obtain e p st where out:
    "update_with_login (new_profile ''u'' 0) (login_event 0) (0, 0) Map.empty = (e, p, st)"
    by (cases "update_with_login (new_profile ''u'' 0) (login_event 0) (0, 0) Map.empty") auto
  have "login_velocity_24h (login_metrics p) = 0
     \<and> spec_velocity (historical_changes p) ''login'' 0 86400 = 1"
    using out[symmetric] by (simp add: update_defs spec_velocity_def)
  then show ?thesis by (simp add: out)
qed

text \<open>
  C1, amended: for every login, transaction or feature-usage update that appends its
  event to the history, the recomputed 24h and 7d velocity fields equal the number of
  same-type entries already in the history before the event is appended (the event
  being processed is not counted) whose recorded timestamp lies at most 86400,
  respectively 604800, seconds before the event's timestamp.
\<close>

theorem velocity_counts_prior_entries:
  "(getitem login_ev ''timestamp'' = Inr (VIso t1)
      \<and> historical_changes (profile_of (update_with_login p1 login_ev clk1 st1))
          \<noteq> historical_changes p1
    \<longrightarrow> login_velocity_24h (login_metrics (profile_of (update_with_login p1 login_ev clk1 st1)))
          = int (spec_velocity (historical_changes p1) ''login'' t1 86400)
      \<and> login_velocity_7d (login_metrics (profile_of (update_with_login p1 login_ev clk1 st1)))
          = int (spec_velocity (historical_changes p1) ''login'' t1 604800))
   \<and> (getitem tx_ev ''timestamp'' = Inr (VIso t2)
      \<and> historical_changes (profile_of (update_with_transaction p2 tx_ev clk2 st2))
          \<noteq> historical_changes p2
    \<longrightarrow> transaction_velocity_24h
          (transaction_metrics (profile_of (update_with_transaction p2 tx_ev clk2 st2)))
          = int (spec_velocity (historical_changes p2) ''transaction'' t2 86400)
      \<and> transaction_velocity_7d
          (transaction_metrics (profile_of (update_with_transaction p2 tx_ev clk2 st2)))
          = int (spec_velocity (historical_changes p2) ''transaction'' t2 604800))
   \<and> (getitem fu_ev ''timestamp'' = Inr (VIso t3)
      \<and> historical_changes (profile_of (update_with_feature_usage p3 fu_ev clk3 st3))
          \<noteq> historical_changes p3
    \<longrightarrow> feature_usage_velocity_24h
          (feature_usage_metrics (profile_of (update_with_feature_usage p3 fu_ev clk3 st3)))
          = int (spec_velocity (historical_changes p3) ''feature_usage'' t3 86400)
      \<and> feature_usage_velocity_7d
          (feature_usage_metrics (profile_of (update_with_feature_usage p3 fu_ev clk3 st3)))
          = int (spec_velocity (historical_changes p3) ''feature_usage'' t3 604800))"
  using login_velocity_recorded[of login_ev t1 p1 clk1 st1]
    transaction_velocity_recorded[of tx_ev t2 p2 clk2 st2]
    feature_usage_velocity_recorded[of fu_ev t3 p3 clk3 st3]
  by blast

theorem velocity_counts_prior_entries_witness:
  "historical_changes (profile_of
       (update_with_login profile_with_history (login_event 600) (600, 600) Map.empty))
     \<noteq> historical_changes profile_with_history
   \<and> login_velocity_24h (login_metrics (profile_of
       (update_with_login profile_with_history (login_event 600) (600, 600) Map.empty))) = 1
   \<and> historical_changes (profile_of
       (update_with_transaction profile_with_history (transaction_event 600 50 ''m'')
          (600, 600) Map.empty))
     \<noteq> historical_changes profile_with_history
   \<and> transaction_velocity_7d (transaction_metrics (profile_of
       (update_with_transaction profile_with_history (transaction_event 600 50 ''m'')
          (600, 600) Map.empty))) = 1
   \<and> historical_changes (profile_of
       (update_with_feature_usage profile_with_history (feature_event 600 ''Bill Pay'' 2)
          (600, 600) Map.empty))
     \<noteq> historical_changes profile_with_history
   \<and> feature_usage_velocity_24h (feature_usage_metrics (profile_of
       (update_with_feature_usage profile_with_history (feature_event 600 ''Bill Pay'' 2)
          (600, 600) Map.empty))) = 1"
proof -
  obtain e1 q1 s1 where o1:
    "update_with_login profile_with_history (login_event 600) (600, 600) Map.empty
       = (e1, q1, s1)"
    by (cases "update_with_login profile_with_history (login_event 600) (600, 600) Map.empty")
      auto
  obtain e2 q2 s2 where o2:
    "update_with_transaction profile_with_history (transaction_event 600 50 ''m'')
       (600, 600) Map.empty = (e2, q2, s2)"
    by (cases "update_with_transaction profile_with_history (transaction_event 600 50 ''m'')
       (600, 600) Map.empty") auto
  obtain e3 q3 s3 where o3:
    "update_with_feature_usage profile_with_history (feature_event 600 ''Bill Pay'' 2)
       (600, 600) Map.empty = (e3, q3, s3)"
    by (cases "update_with_feature_usage profile_with_history
       (feature_event 600 ''Bill Pay'' 2) (600, 600) Map.empty") auto
  have g1: "historical_changes q1 \<noteq> historical_changes profile_with_history"
    using o1[symmetric] by (simp add: update_defs profile_with_history_def)
  have g2: "historical_changes q2 \<noteq> historical_changes profile_with_history"
    using o2[symmetric] by (simp add: update_defs profile_with_history_def)
  have g3: "historical_changes q3 \<noteq> historical_changes profile_with_history"
    using o3[symmetric]
    by (simp add: update_defs profile_with_history_def np_std_def)
  have sv: "spec_velocity (historical_changes profile_with_history) ''login'' 600 86400 = 1"
    "spec_velocity (historical_changes profile_with_history) ''transaction'' 600 604800 = 1"
    "spec_velocity (historical_changes profile_with_history) ''feature_usage'' 600 86400 = 1"
    by (simp_all add: spec_velocity_def profile_with_history_def change_entry_def getitem_def
        bind_result_def)
  have ts: "getitem (login_event 600) ''timestamp'' = Inr (VIso 600)"
    "getitem (transaction_event 600 50 ''m'') ''timestamp'' = Inr (VIso 600)"
    "getitem (feature_event 600 ''Bill Pay'' 2) ''timestamp'' = Inr (VIso 600)"
    by (simp_all add: login_event_def transaction_event_def feature_event_def getitem_def)
  show ?thesis
    using velocity_counts_prior_entries
      [of "login_event 600" 600 profile_with_history "(600, 600)" Map.empty
          "transaction_event 600 50 ''m''" 600 profile_with_history "(600, 600)" Map.empty
          "feature_event 600 ''Bill Pay'' 2" 600 profile_with_history "(600, 600)" Map.empty]
      g1 g2 g3 sv ts
    by (simp add: o1 o2 o3)
qed

section \<open>Two logins\<close>

text \<open>
  C2. The claim: a login at instant 0 and a second one 600 seconds later, on a new
  profile, give \<^verbatim>\<open>total_logins\<close> 2, \<^verbatim>\<open>avg_login_interval\<close> 600.0 and
  \<^verbatim>\<open>login_velocity_24h\<close> 2. The code divides the one interval of 600 seconds by the
  new \<^verbatim>\<open>total_logins\<close>, and counts the history before the second login is appended:
  with the clock reading the event times, the average is 300 and the velocity is 1.
\<close>

theorem two_logins_interval_is_300:
  "total_logins (login_metrics (profile_of
       (two_logins ''u'' 0 0 (0, 0) (600, 600) Map.empty))) = 2
   \<and> avg_login_interval (login_metrics (profile_of
       (two_logins ''u'' 0 0 (0, 0) (600, 600) Map.empty))) = 300
   \<and> login_velocity_24h (login_metrics (profile_of
       (two_logins ''u'' 0 0 (0, 0) (600, 600) Map.empty))) = 1"
proof -
  obtain e p st' where out: "two_logins ''u'' 0 0 (0, 0) (600, 600) Map.empty = (e, p, st')"
    by (cases "two_logins ''u'' 0 0 (0, 0) (600, 600) Map.empty") auto
  have "total_logins (login_metrics p) = 2 \<and> avg_login_interval (login_metrics p) = 300
     \<and> login_velocity_24h (login_metrics p) = 1"
    using out[symmetric] unfolding two_logins_def then_apply_def
    by (simp add: update_defs)
  then show ?thesis by (simp add: out)
qed

text \<open>
  C2, amended: starting from a new profile, a login at instant \<open>t0\<close> and a second login
  with the same fields 600 seconds later leave, in the profile object,
  \<^verbatim>\<open>total_logins\<close> 2, \<^verbatim>\<open>avg_login_interval\<close> 300.0 and \<^verbatim>\<open>login_velocity_24h\<close> 1,
  whenever the clock reading stored with the first login is at most 24 hours before the
  second login's timestamp.
\<close>

theorem two_logins_scenario:
  assumes "t0 + 600 - fst clk1 \<le> 86400"
  shows "total_logins (login_metrics (profile_of (two_logins uid now t0 clk1 clk2 st))) = 2
     \<and> avg_login_interval
         (login_metrics (profile_of (two_logins uid now t0 clk1 clk2 st))) = 300
     \<and> login_velocity_24h
         (login_metrics (profile_of (two_logins uid now t0 clk1 clk2 st))) = 1"
proof -
  obtain e p st' where out: "two_logins uid now t0 clk1 clk2 st = (e, p, st')"
    by (cases "two_logins uid now t0 clk1 clk2 st") auto
  have "total_logins (login_metrics p) = 2 \<and> avg_login_interval (login_metrics p) = 300
     \<and> login_velocity_24h (login_metrics p) = 1"
    using out[symmetric] assms unfolding two_logins_def then_apply_def
    by (simp add: update_defs)
  then show ?thesis by (simp add: out)
qed

theorem two_logins_scenario_witness:
  "(0::real) + 600 - fst (100::real, 100::real) \<le> 86400
   \<and> total_logins (login_metrics (profile_of
       (two_logins ''u'' 0 0 (100, 100) (700, 700) Map.empty))) = 2
   \<and> avg_login_interval (login_metrics (profile_of
       (two_logins ''u'' 0 0 (100, 100) (700, 700) Map.empty))) = 300
   \<and> login_velocity_24h (login_metrics (profile_of
       (two_logins ''u'' 0 0 (100, 100) (700, 700) Map.empty))) = 1"
  using two_logins_scenario
    [of 0 "(100, 100)" "''u''" 0 "(700, 700)" Map.empty]
  by simp

section \<open>Transaction totals\<close>

lemma velocity_recorded:
  "list_all recorded h \<Longrightarrow> velocity h ty ''timestamp'' cur w = Inr (spec_velocity h ty cur w)"
proof (induction h)
  case Nil
  then show ?case by (simp add: spec_velocity_def)
next
  case (Cons c h)
  then have "velocity h ty ''timestamp'' cur w = Inr (spec_velocity h ty cur w)" by simp
  moreover from Cons.prems obtain et t where "subscript c ''event_type'' = Inr et"
    "bind_result (subscript c ''timestamp'') fromisoformat = Inr t"
    by (auto simp: recorded_def not_isl_iff)
  ultimately show ?case
    by (simp add: spec_velocity_def)
qed

lemma update_velocity_metrics_transaction_recorded:
  "list_all recorded (historical_changes q) \<Longrightarrow>
   update_velocity_metrics ''transaction'' cur q =
     (None, transaction_metrics_update
        (transaction_velocity_7d_update
           (\<lambda>_. int (spec_velocity (historical_changes q) ''transaction'' cur 604800)))
        (transaction_metrics_update
           (transaction_velocity_24h_update
              (\<lambda>_. int (spec_velocity (historical_changes q) ''transaction'' cur 86400))) q))"
  by (simp add: update_velocity_metrics_def velocity_recorded Let_def)

lemma json_serializable_profile_data:
  "json_serializable (profile_data p) \<longleftrightarrow>
     json_serializable (last_login_time (login_metrics p))
     \<and> list_all json_serializable (historical_changes p)"
  by (simp add: profile_data_def login_metrics_dict_def transaction_metrics_dict_def
      session_metrics_dict_def feature_usage_metrics_dict_def risk_scores_dict_def
      list_all_iff)

lemma json_serializable_change_entry:
  "json_serializable (change_entry t ty ev) \<longleftrightarrow> json_serializable (VDict ev)"
  by (simp add: change_entry_def)

lemma recorded_change_entry:
  "recorded (change_entry t ty ev) \<longleftrightarrow> json_serializable (VDict ev)"
  by (simp add: recorded_def change_entry_def getitem_def)

lemma list_all_recorded_serializable:
  "list_all recorded h \<Longrightarrow> list_all json_serializable h"
  by (induction h) (auto simp: recorded_def)

lemma update_with_transaction_sound:
  assumes "sound_profile p" and "transaction_ok ev"
  shows "\<exists>p' st'. update_with_transaction p ev clk st = (None, p', st')
     \<and> sound_profile p'
     \<and> user_id p' = user_id p
     \<and> total_transactions (transaction_metrics p') = total_transactions (transaction_metrics p) + 1
     \<and> total_amount (transaction_metrics p') = total_amount (transaction_metrics p) + amount_of ev
     \<and> avg_amount (transaction_metrics p')
         = total_amount (transaction_metrics p') / of_int (total_transactions (transaction_metrics p'))
     \<and> max_amount (transaction_metrics p') = max (max_amount (transaction_metrics p)) (amount_of ev)"
proof -
  from assms(2) obtain tv t av a m n where ev:
    "getitem ev ''timestamp'' = Inr tv" "fromisoformat tv = Inr t"
    "getitem ev ''amount'' = Inr av" "py_float av = Inr a"
    "getitem ev ''merchant_id'' = Inr m" "len_set1 m = Inr n"
    and ser: "json_serializable (VDict ev)"
    by (auto simp: transaction_ok_def not_isl_iff bind_result_def split: sum.splits)
  have amt: "amount_of ev = a"
    by (simp add: amount_of_def ev)
  from assms(1) have nz: "total_transactions (transaction_metrics p) + 1 \<noteq> 0"
    and rec: "list_all recorded (historical_changes p)"
    and lst: "json_serializable (last_login_time (login_metrics p))"
    by (auto simp: sound_profile_def)
  show ?thesis
    using assms(1) rec lst ser
    unfolding update_with_transaction_def Let_def
    by (simp add: ev nz truediv_def amt update_velocity_metrics_transaction_recorded
        save_profile_def json_serializable_profile_data record_change_def
        update_risk_scores_def sound_profile_def recorded_change_entry
        json_serializable_change_entry list_all_recorded_serializable Let_def)
qed

lemma process_transactions_sound:
  assumes "sound_profile p" and "list_all (\<lambda>(ev, clk). transaction_ok ev) evs"
  shows "\<exists>p' st'. process_transactions p st evs = (None, p', st')
     \<and> sound_profile p'
     \<and> total_transactions (transaction_metrics p')
         = total_transactions (transaction_metrics p) + int (length evs)
     \<and> total_amount (transaction_metrics p')
         = total_amount (transaction_metrics p) + sum_list (map (\<lambda>(ev, clk). amount_of ev) evs)
     \<and> max_amount (transaction_metrics p')
         = fold (\<lambda>(ev, clk) m. max m (amount_of ev)) evs (max_amount (transaction_metrics p))
     \<and> (evs \<noteq> [] \<longrightarrow> avg_amount (transaction_metrics p')
         = total_amount (transaction_metrics p') / of_int (total_transactions (transaction_metrics p')))"
  using assms
proof (induction evs arbitrary: p st)
  case Nil
  then show ?case by simp
next
  case (Cons x evs)
  obtain ev clk where x: "x = (ev, clk)" by (cases x)
  from Cons.prems x have ok: "transaction_ok ev"
    and rest: "list_all (\<lambda>(ev, clk). transaction_ok ev) evs" by auto
  from update_with_transaction_sound[OF Cons.prems(1) ok, of clk st]
  obtain p1 st1 where step: "update_with_transaction p ev clk st = (None, p1, st1)"
    and s1: "sound_profile p1"
    and n1: "total_transactions (transaction_metrics p1) = total_transactions (transaction_metrics p) + 1"
    and a1: "total_amount (transaction_metrics p1) = total_amount (transaction_metrics p) + amount_of ev"
    and v1: "avg_amount (transaction_metrics p1)
         = total_amount (transaction_metrics p1) / of_int (total_transactions (transaction_metrics p1))"
    and m1: "max_amount (transaction_metrics p1) = max (max_amount (transaction_metrics p)) (amount_of ev)"
    by blast
  from Cons.IH[OF s1 rest, of st1]
  obtain p' st' where run: "process_transactions p1 st1 evs = (None, p', st')"
    and s': "sound_profile p'"
    and n': "total_transactions (transaction_metrics p')
         = total_transactions (transaction_metrics p1) + int (length evs)"
    and a': "total_amount (transaction_metrics p')
         = total_amount (transaction_metrics p1) + sum_list (map (\<lambda>(ev, clk). amount_of ev) evs)"
    and m': "max_amount (transaction_metrics p')
         = fold (\<lambda>(ev, clk) m. max m (amount_of ev)) evs (max_amount (transaction_metrics p1))"
    and v': "evs \<noteq> [] \<longrightarrow> avg_amount (transaction_metrics p')
         = total_amount (transaction_metrics p') / of_int (total_transactions (transaction_metrics p'))"
    by blast
  have "evs = [] \<Longrightarrow> p' = p1" using run by simp
  with v1 v' have "avg_amount (transaction_metrics p')
         = total_amount (transaction_metrics p') / of_int (total_transactions (transaction_metrics p'))"
    by (cases "evs = []") auto
  with run s' n' a' m' n1 a1 m1 show ?case
    by (simp add: x step)
qed

lemma fold_max_Max:
  "fold (\<lambda>(ev, clk) m. max m (amount_of ev)) evs (m0::real)
     = Max (set (m0 # map (\<lambda>(ev, clk). amount_of ev) evs))"
proof (induction evs arbitrary: m0)
  case Nil
  then show ?case by simp
next
  case (Cons x evs)
  obtain ev clk where x: "x = (ev, clk)" by (cases x)
  have "Max (insert (max m0 (amount_of ev)) (set (map (\<lambda>(ev, clk). amount_of ev) evs)))
      = Max (insert m0 (insert (amount_of ev) (set (map (\<lambda>(ev, clk). amount_of ev) evs))))"
    by (cases "set (map (\<lambda>(ev, clk). amount_of ev) evs) = {}")
       (simp_all add: max.assoc max.commute max.left_commute)
  with Cons show ?case by (simp add: x)
qed

lemma sound_new_profile: "sound_profile (new_profile uid now)"
  by (simp add: sound_profile_def new_profile_def)


text \<open>
  C3. The claim: after any N transactions on a new profile, \<^verbatim>\<open>max_amount\<close> is the
  largest amount. The code starts \<^verbatim>\<open>max_amount\<close> at 0.0 and takes
  \<^verbatim>\<open>max(max_amount, amount)\<close>: after one transaction of amount -5, which is processed
  without error, \<^verbatim>\<open>max_amount\<close> is 0, not -5.
\<close>

theorem negative_amount_max_is_zero:
  "raised (process_transactions (new_profile ''u'' 0) Map.empty
       [(transaction_event 0 (- 5) ''m'', (0, 0))]) = None
   \<and> max_amount (transaction_metrics (profile_of
       (process_transactions (new_profile ''u'' 0) Map.empty
          [(transaction_event 0 (- 5) ''m'', (0, 0))]))) = 0
   \<and> amount_of (transaction_event 0 (- 5) ''m'') = - 5"
proof -
  obtain e p st where out:
    "update_with_transaction (new_profile ''u'' 0) (transaction_event 0 (- 5) ''m'') (0, 0)
       Map.empty = (e, p, st)"
    by (cases "update_with_transaction (new_profile ''u'' 0)
       (transaction_event 0 (- 5) ''m'') (0, 0) Map.empty") auto
  have "e = None \<and> max_amount (transaction_metrics p) = 0"
    using out[symmetric] by (simp add: update_defs)
  moreover have "amount_of (transaction_event 0 (- 5) ''m'') = - 5"
    by (simp add: amount_of_def transaction_event_def getitem_def)
  ultimately show ?thesis
    by (simp add: out)
qed

text \<open>
  C3, amended: for every non-empty sequence of N transaction events that the method can
  process in full, applied to a new profile, the run ends without error with
  \<^verbatim>\<open>total_transactions\<close> N, \<^verbatim>\<open>total_amount\<close> the sum of the amounts, \<^verbatim>\<open>avg_amount\<close>
  the sum divided by N, and \<^verbatim>\<open>max_amount\<close> the largest of 0 and the amounts (the
  largest amount whenever one amount is not negative).
\<close>

theorem transaction_totals:
  assumes "evs \<noteq> []" and "list_all (\<lambda>(ev, clk). transaction_ok ev) evs"
  shows "raised (process_transactions (new_profile uid now) st evs) = None
     \<and> total_transactions (transaction_metrics (profile_of
         (process_transactions (new_profile uid now) st evs))) = int (length evs)
     \<and> total_amount (transaction_metrics (profile_of
         (process_transactions (new_profile uid now) st evs)))
         = sum_list (map (\<lambda>(ev, clk). amount_of ev) evs)
     \<and> avg_amount (transaction_metrics (profile_of
         (process_transactions (new_profile uid now) st evs)))
         = sum_list (map (\<lambda>(ev, clk). amount_of ev) evs) / real (length evs)
     \<and> max_amount (transaction_metrics (profile_of
         (process_transactions (new_profile uid now) st evs)))
         = Max (set (0 # map (\<lambda>(ev, clk). amount_of ev) evs))"
proof -
  from process_transactions_sound[OF sound_new_profile assms(2), of uid now st]
  obtain p' st' where "process_transactions (new_profile uid now) st evs = (None, p', st')"
    "total_transactions (transaction_metrics p') = int (length evs)"
    "total_amount (transaction_metrics p') = sum_list (map (\<lambda>(ev, clk). amount_of ev) evs)"
    "max_amount (transaction_metrics p') = fold (\<lambda>(ev, clk) m. max m (amount_of ev)) evs 0"
    "avg_amount (transaction_metrics p')
         = total_amount (transaction_metrics p')
           / of_int (total_transactions (transaction_metrics p'))"
    using assms(1) by (auto simp: new_profile_def)
  then show ?thesis
    by (simp add: fold_max_Max)
qed

theorem transaction_totals_witness:
  "list_all (\<lambda>(ev, clk). transaction_ok ev) three_transactions
   \<and> raised (process_transactions (new_profile ''u'' 0) Map.empty three_transactions) = None
   \<and> total_transactions (transaction_metrics (profile_of
       (process_transactions (new_profile ''u'' 0) Map.empty three_transactions))) = 3
   \<and> total_amount (transaction_metrics (profile_of
       (process_transactions (new_profile ''u'' 0) Map.empty three_transactions))) = 600
   \<and> avg_amount (transaction_metrics (profile_of
       (process_transactions (new_profile ''u'' 0) Map.empty three_transactions))) = 200
   \<and> max_amount (transaction_metrics (profile_of
       (process_transactions (new_profile ''u'' 0) Map.empty three_transactions))) = 300"
proof -
  have ne: "three_transactions \<noteq> []"
    by (simp add: three_transactions_def)
  have ok: "list_all (\<lambda>(ev, clk). transaction_ok ev) three_transactions"
    by (simp add: three_transactions_def transaction_ok_def transaction_event_def
        getitem_def len_set1_def)
  have vals: "length three_transactions = 3"
    "sum_list (map (\<lambda>(ev, clk). amount_of ev) three_transactions) = 600"
    "Max (set (0 # map (\<lambda>(ev, clk). amount_of ev) three_transactions)) = 300"
    by (simp_all add: three_transactions_def amount_of_def transaction_event_def getitem_def)
  show ?thesis
    using transaction_totals[OF ne ok, of "''u''" 0 Map.empty] ok vals
    by simp
qed

end
